theory Spec2Isabelle
  imports Main "HOL-Library.Sublist"
begin

section \<open>The relational schema (the migration that creates the tables)\<close>

text \<open>
  Identifiers are UUIDs, which the TypeScript client handles as strings. Timestamps
  (\<open>created_at\<close>, \<open>updated_at\<close>) are natural numbers; the value of \<open>now()\<close> and
  the value of \<open>gen_random_uuid()\<close> are parameters of every statement that uses
  them. The two timestamps of \<open>profiles\<close> are left out: no statement of the pages
  below writes a profile or orders by them.
\<close>

type_synonym uuid = string
type_synonym timestamp = nat

text \<open>
  The names of skills, the two entry fields and the messages are text on which
  \<open>trim\<close>, \<open>toLowerCase\<close> and \<open>ilike\<close> work, or which is joined with such text: a list
  of Unicode code points. A literal of the code is written with \<open>text_of\<close>. The other
  columns and fields, which the code copies and compares only, stay strings.
\<close>

type_synonym code_point = int

type_synonym utext = "code_point list"

definition text_of :: "string \<Rightarrow> utext" where
  "text_of s = map of_char s"

datatype status = pending | accepted | rejected

datatype skill_type = offered | wanted

record profile_row =
  p_id :: uuid
  p_user_id :: uuid
  p_display_name :: "string option"
  p_location :: "string option"
  p_avatar_url :: "string option"
  p_availability :: "string option"
  p_is_public :: "bool option"

record skill_row =
  sk_id :: uuid
  sk_name :: utext
  sk_category :: "string option"
  sk_is_approved :: "bool option"
  sk_created_at :: timestamp

record user_skill_row =
  us_id :: uuid
  us_user_id :: uuid
  us_skill_id :: uuid
  us_skill_type :: skill_type
  us_created_at :: timestamp

record swap_request_row =
  sr_id :: uuid
  sr_requester_id :: uuid
  sr_recipient_id :: uuid
  sr_offered_skill_id :: uuid
  sr_wanted_skill_id :: uuid
  sr_message :: "string option"
  sr_status :: status
  sr_created_at :: timestamp
  sr_updated_at :: timestamp

record feedback_row =
  fb_id :: uuid
  fb_swap_request_id :: uuid
  fb_reviewer_id :: uuid
  fb_reviewee_id :: uuid
  fb_rating :: "int option"
  fb_comment :: "string option"
  fb_created_at :: timestamp

record database =
  auth_users :: "uuid list"
  profiles :: "profile_row list"
  skills :: "skill_row list"
  user_skills :: "user_skill_row list"
  swap_requests :: "swap_request_row list"
  feedback :: "feedback_row list"

subsection \<open>Errors and notifications\<close>

text \<open>
  A backend call answers \<open>{ data, error }\<close>; the model answers \<open>Inl error\<close> or
  \<open>Inr data\<close>. An error carries the message the pages put into their toast.
\<close>

datatype error_kind =
  UniqueViolation | CheckViolation | NotNullViolation | ForeignKeyViolation
  | PolicyViolation | PatternError | TransportError

datatype error = Error (kind: error_kind) (message: utext)

datatype toast = Toast (title: string) (description: utext) (destructive: bool)

text \<open>
  A request may fail before it reaches the tables (network, expired session): the
  \<open>fault\<close> of a call is the error it then answers with, the tables being untouched.
  The pages are rendered for a signed-in user; the argument \<open>uid\<close> of a handler is
  \<open>user.id\<close>, which the backend sees as \<open>auth.uid()\<close>. A limit of the REST layer on
  the number of rows of an answer is not modelled.
\<close>

type_synonym fault = "error option"

subsection \<open>Row-level policies on \<open>swap_requests\<close>\<close>

text \<open>The first argument is \<open>auth.uid()\<close>.\<close>

definition swap_requests_select_policy :: "uuid \<Rightarrow> swap_request_row \<Rightarrow> bool" where
  "swap_requests_select_policy uid r \<longleftrightarrow> uid = sr_requester_id r \<or> uid = sr_recipient_id r"

definition swap_requests_insert_policy :: "uuid \<Rightarrow> swap_request_row \<Rightarrow> bool" where
  "swap_requests_insert_policy uid r \<longleftrightarrow> uid = sr_requester_id r"

definition swap_requests_update_policy :: "uuid \<Rightarrow> swap_request_row \<Rightarrow> bool" where
  "swap_requests_update_policy uid r \<longleftrightarrow> uid = sr_requester_id r \<or> uid = sr_recipient_id r"

definition swap_requests_delete_policy :: "uuid \<Rightarrow> swap_request_row \<Rightarrow> bool" where
  "swap_requests_delete_policy uid r \<longleftrightarrow> uid = sr_requester_id r \<and> sr_status r = pending"

subsection \<open>Statements on \<open>swap_requests\<close>\<close>

text \<open>
  \<open>UPDATE swap_requests SET status = st WHERE id = rid\<close>, run as \<open>uid\<close>. Under
  row-level security the statement sees the rows that pass the SELECT and the UPDATE
  policy; a row that does not pass is skipped without an error. The policy has no
  WITH CHECK of its own, so the USING expression is applied to the new row as well; it
  reads \<open>requester_id\<close> and \<open>recipient_id\<close> only, which the statement does not change.
  The trigger \<open>update_swap_requests_updated_at\<close> stamps each updated row. The column's
  CHECK admits the three values of \<open>status\<close>.
\<close>

definition update_swap_request_status ::
  "timestamp \<Rightarrow> uuid \<Rightarrow> uuid \<Rightarrow> status \<Rightarrow> database \<Rightarrow> error + database" where
  "update_swap_request_status now uid rid st d =
     Inr (d\<lparr>swap_requests :=
       map (\<lambda>r. if sr_id r = rid \<and> swap_requests_select_policy uid r
                    \<and> swap_requests_update_policy uid r
                 then r\<lparr>sr_status := st, sr_updated_at := now\<rparr> else r)
           (swap_requests d)\<rparr>)"

text \<open>
  \<open>DELETE FROM swap_requests WHERE id = rid\<close>, run as \<open>uid\<close>: the rows that pass the
  SELECT and the DELETE policy go, the others stay, without an error. The feedback rows
  of a deleted request go with it (\<open>ON DELETE CASCADE\<close>).
\<close>

definition delete_swap_request :: "uuid \<Rightarrow> uuid \<Rightarrow> database \<Rightarrow> error + database" where
  "delete_swap_request uid rid d =
     (let gone = (\<lambda>r. sr_id r = rid \<and> swap_requests_select_policy uid r
                        \<and> swap_requests_delete_policy uid r);
          ids = map sr_id (filter gone (swap_requests d))
      in Inr (d\<lparr>swap_requests := filter (\<lambda>r. \<not> gone r) (swap_requests d),
               feedback := filter (\<lambda>f. fb_swap_request_id f \<notin> set ids) (feedback d)\<rparr>))"

text \<open>A mutation sent through the client: the fault, if any, else the statement.\<close>

definition mutate :: "fault \<Rightarrow> (database \<Rightarrow> error + database) \<Rightarrow> database \<Rightarrow> error option \<times> database" where
  "mutate flt stmt d =
     (case flt of
        Some e \<Rightarrow> (Some e, d)
      | None \<Rightarrow> (case stmt d of Inl e \<Rightarrow> (Some e, d) | Inr d' \<Rightarrow> (None, d')))"

section \<open>SwapRequestsPage\<close>

text \<open>
  A handler of a page takes the tables and the page state and returns the tables, the
  page state and the toasts it raised.
\<close>

definition tables_of :: "database \<times> 'p \<times> toast list \<Rightarrow> database" where
  "tables_of r = fst r"

definition page_of :: "database \<times> 'p \<times> toast list \<Rightarrow> 'p" where
  "page_of r = fst (snd r)"

definition toasts_of :: "database \<times> 'p \<times> toast list \<Rightarrow> toast list" where
  "toasts_of r = snd (snd r)"

record party =
  party_id :: uuid
  party_display_name :: "string option"
  party_avatar_url :: "string option"

record skill_ref =
  ref_id :: uuid
  ref_name :: utext

record swap_request_view =
  rq_id :: uuid
  rq_message :: "string option"
  rq_status :: status
  rq_created_at :: timestamp
  rq_requester :: party
  rq_recipient :: party
  rq_offered_skill :: "skill_ref option"
  rq_wanted_skill :: "skill_ref option"

record swap_requests_page =
  srp_loading :: bool
  sentRequests :: "swap_request_view list"
  receivedRequests :: "swap_request_view list"

fun status_text :: "status \<Rightarrow> string" where
  "status_text pending = ''pending''"
| "status_text accepted = ''accepted''"
| "status_text rejected = ''rejected''"

text \<open>
  \<open>updateRequestStatus(requestId, status)\<close>: the update goes to the backend; on an error
  the catch block raises a toast and nothing else; otherwise the entry of
  \<open>receivedRequests\<close> with that id gets the new status.
\<close>

definition updateRequestStatus ::
  "fault \<Rightarrow> timestamp \<Rightarrow> uuid \<Rightarrow> uuid \<Rightarrow> status \<Rightarrow> database \<times> swap_requests_page
     \<Rightarrow> database \<times> swap_requests_page \<times> toast list" where
  "updateRequestStatus flt now uid requestId st w =
     (case mutate flt (update_swap_request_status now uid requestId st) (fst w) of
        (Some e, d') \<Rightarrow>
          (d', snd w, [Toast ''Error updating request'' (message e) True])
      | (None, d') \<Rightarrow>
          (d',
           (snd w)\<lparr>receivedRequests :=
              map (\<lambda>req. if rq_id req = requestId then req\<lparr>rq_status := st\<rparr> else req)
                  (receivedRequests (snd w))\<rparr>,
           [Toast (''Request '' @ status_text st)
                  (text_of (''The swap request has been '' @ status_text st @ ''.'')) False]))"

text \<open>\<open>deleteRequest(requestId)\<close>: as above, the entry leaving \<open>sentRequests\<close>.\<close>

definition deleteRequest ::
  "fault \<Rightarrow> uuid \<Rightarrow> uuid \<Rightarrow> database \<times> swap_requests_page
     \<Rightarrow> database \<times> swap_requests_page \<times> toast list" where
  "deleteRequest flt uid requestId w =
     (case mutate flt (delete_swap_request uid requestId) (fst w) of
        (Some e, d') \<Rightarrow>
          (d', snd w, [Toast ''Error deleting request'' (message e) True])
      | (None, d') \<Rightarrow>
          (d',
           (snd w)\<lparr>sentRequests := filter (\<lambda>req. rq_id req \<noteq> requestId) (sentRequests (snd w))\<rparr>,
           [Toast ''Request deleted'' (text_of ''The swap request has been deleted.'') False]))"

text \<open>
  \<open>RequestCard\<close> renders the Accept and Decline buttons on a received request that is
  pending, and the Delete button on a sent request that is pending.
\<close>

datatype card_type = sent | received

definition offers_accept_decline :: "card_type \<Rightarrow> swap_request_view \<Rightarrow> bool" where
  "offers_accept_decline typ request \<longleftrightarrow> typ = received \<and> rq_status request = pending"

definition offers_delete :: "card_type \<Rightarrow> swap_request_view \<Rightarrow> bool" where
  "offers_delete typ request \<longleftrightarrow> typ = sent \<and> rq_status request = pending"

section \<open>Text\<close>

text \<open>
  \<open>String.prototype.trim\<close> strips, at both ends, the white space and the line
  terminators of ECMAScript: TAB, LF, VT, FF, CR, SP, NBSP, U+1680, U+2000 to U+200A,
  U+2028, U+2029, U+202F, U+205F, U+3000 and U+FEFF.
\<close>

definition white_space :: "code_point \<Rightarrow> bool" where
  "white_space c \<longleftrightarrow>
     c \<in> set [0x09, 0x0A, 0x0B, 0x0C, 0x0D, 0x20, 0xA0, 0x1680,
              0x2000, 0x2001, 0x2002, 0x2003, 0x2004, 0x2005, 0x2006, 0x2007, 0x2008,
              0x2009, 0x200A, 0x2028, 0x2029, 0x202F, 0x205F, 0x3000, 0xFEFF]"

definition trim :: "utext \<Rightarrow> utext" where
  "trim s = rev (dropWhile white_space (rev (dropWhile white_space s)))"

text \<open>
  \<open>String.prototype.toLowerCase\<close> is the case mapping of the JavaScript engine; the
  handler that calls it takes it as the parameter \<open>lower\<close>. On text of ASCII characters
  it is the function \<open>ascii_lower\<close>.
\<close>

definition ascii_lc :: "code_point \<Rightarrow> code_point" where
  "ascii_lc c = (if 65 \<le> c \<and> c \<le> 90 then c + 32 else c)"

definition ascii_lower :: "utext \<Rightarrow> utext" where
  "ascii_lower s = map ascii_lc s"

subsection \<open>The \<open>ilike\<close> filter\<close>

text \<open>
  A LIKE pattern: \<open>%\<close> (37) stands for any string, \<open>_\<close> (95) for any one character,
  and a backslash (92) makes the next character literal; a pattern that ends in a lone
  backslash is an error. The REST layer reads \<open>*\<close> (42) in the filter value as \<open>%\<close>.
  ILIKE matches the lower-cased string against the lower-cased pattern; the case mapping
  of the database depends on its locale and is the parameter \<open>lc\<close>, a mapping of
  characters; on ASCII characters it is \<open>ascii_lc\<close>.
\<close>

datatype like_token = AnyString | AnyChar | Literal code_point

fun like_tokens :: "utext \<Rightarrow> like_token list option" where
  "like_tokens [] = Some []"
| "like_tokens [c] =
     (if c = 37 then Some [AnyString]
      else if c = 95 then Some [AnyChar]
      else if c = 92 then None
      else Some [Literal c])"
| "like_tokens (c # e # es) =
     (if c = 37 then map_option ((#) AnyString) (like_tokens (e # es))
      else if c = 95 then map_option ((#) AnyChar) (like_tokens (e # es))
      else if c = 92 then map_option ((#) (Literal e)) (like_tokens es)
      else map_option ((#) (Literal c)) (like_tokens (e # es)))"

fun like_match :: "like_token list \<Rightarrow> utext \<Rightarrow> bool" where
  "like_match [] s \<longleftrightarrow> s = []"
| "like_match (AnyString # p) [] \<longleftrightarrow> like_match p []"
| "like_match (AnyString # p) (c # cs) \<longleftrightarrow> like_match p (c # cs) \<or> like_match (AnyString # p) cs"
| "like_match (AnyChar # p) [] \<longleftrightarrow> False"
| "like_match (AnyChar # p) (c # cs) \<longleftrightarrow> like_match p cs"
| "like_match (Literal a # p) [] \<longleftrightarrow> False"
| "like_match (Literal a # p) (c # cs) \<longleftrightarrow> a = c \<and> like_match p cs"

definition stars :: "utext \<Rightarrow> utext" where
  "stars v = map (\<lambda>c. if c = 42 then 37 else c) v"

definition ilike :: "(code_point \<Rightarrow> code_point) \<Rightarrow> utext \<Rightarrow> utext \<Rightarrow> error + bool" where
  "ilike lc pattern s =
     (case like_tokens (map lc (stars pattern)) of
        None \<Rightarrow>
          Inl (Error PatternError (text_of ''LIKE pattern must not end with escape character''))
      | Some ts \<Rightarrow> Inr (like_match ts (map lc s)))"

section \<open>SearchPage\<close>

subsection \<open>The four queries of \<open>searchUsers\<close>\<close>

definition profiles_select_policy :: "uuid \<Rightarrow> profile_row \<Rightarrow> bool" where
  "profiles_select_policy uid p \<longleftrightarrow> p_is_public p = Some True \<or> uid = p_user_id p"

text \<open>A query sent through the client: the fault, if any, else the rows.\<close>

definition query :: "fault \<Rightarrow> error + 'a \<Rightarrow> error + 'a" where
  "query flt rows = (case flt of Some e \<Rightarrow> Inl e | None \<Rightarrow> rows)"

text \<open>\<open>from('skills').select('id').ilike('name', pattern)\<close>; every skill is readable.\<close>

definition select_skill_ids_ilike :: "(code_point \<Rightarrow> code_point) \<Rightarrow> utext \<Rightarrow> database \<Rightarrow> error + uuid list" where
  "select_skill_ids_ilike lc pattern d =
     (case like_tokens (map lc (stars pattern)) of
        None \<Rightarrow>
          Inl (Error PatternError (text_of ''LIKE pattern must not end with escape character''))
      | Some ts \<Rightarrow>
          Inr (map sk_id (filter (\<lambda>s. like_match ts (map lc (sk_name s))) (skills d))))"

text \<open>
  \<open>from('user_skills').select('user_id').eq('skill_type', 'offered').in('skill_id', skillIds)\<close>;
  every user skill is readable.
\<close>

definition select_offering_user_ids :: "uuid list \<Rightarrow> database \<Rightarrow> error + uuid list" where
  "select_offering_user_ids skillIds d =
     Inr (map us_user_id
            (filter (\<lambda>us. us_skill_type us = offered \<and> us_skill_id us \<in> set skillIds)
                    (user_skills d)))"

text \<open>
  \<open>from('profiles').select(...).eq('is_public', true).neq('user_id', user.id).in('user_id', userIds)\<close>,
  under the SELECT policy of \<open>profiles\<close>. The select list has no \<open>is_public\<close>; the page
  reads the six columns it asks for.
\<close>

definition select_public_profiles :: "uuid \<Rightarrow> uuid list \<Rightarrow> database \<Rightarrow> error + profile_row list" where
  "select_public_profiles uid userIds d =
     Inr (filter (\<lambda>p. profiles_select_policy uid p \<and> p_is_public p = Some True
                       \<and> p_user_id p \<noteq> uid \<and> p_user_id p \<in> set userIds)
                 (profiles d))"

text \<open>
  \<open>from('user_skills').select('user_id, skills (id, name)').eq('skill_type', 'offered').in('user_id', userIds)\<close>:
  each row with the skill its \<open>skill_id\<close> refers to, \<open>null\<close> if there is none.
\<close>

definition embedded_skill :: "database \<Rightarrow> uuid \<Rightarrow> skill_ref option" where
  "embedded_skill d sid =
     map_option (\<lambda>s. \<lparr>ref_id = sk_id s, ref_name = sk_name s\<rparr>)
                (find (\<lambda>s. sk_id s = sid) (skills d))"

definition select_offered_skills ::
  "uuid list \<Rightarrow> database \<Rightarrow> error + (uuid \<times> skill_ref option) list" where
  "select_offered_skills userIds d =
     Inr (map (\<lambda>us. (us_user_id us, embedded_skill d (us_skill_id us)))
              (filter (\<lambda>us. us_skill_type us = offered \<and> us_user_id us \<in> set userIds)
                      (user_skills d)))"

subsection \<open>The page\<close>

record user_profile =
  up_id :: uuid
  up_user_id :: uuid
  up_display_name :: "string option"
  up_location :: "string option"
  up_avatar_url :: "string option"
  up_availability :: "string option"
  offeredSkills :: "skill_ref list"

record search_page =
  searchTerm :: utext
  users :: "user_profile list"
  search_loading :: bool

text \<open>\<open>[...new Set(xs)]\<close>: the elements of \<open>xs\<close>, each once, in the order of first occurrence.\<close>

definition unique :: "'a list \<Rightarrow> 'a list" where
  "unique xs = rev (remdups (rev xs))"

text \<open>
  \<open>userMap\<close> is a JavaScript \<open>Map\<close>: the entries in insertion order, the keys distinct.
  The first loop enters a profile under its \<open>user_id\<close> unless the key is there.
\<close>

definition addProfile :: "(uuid \<times> user_profile) list \<Rightarrow> profile_row \<Rightarrow> (uuid \<times> user_profile) list" where
  "addProfile userMap profile =
     (if map_of userMap (p_user_id profile) \<noteq> None then userMap
      else userMap @
        [(p_user_id profile,
          \<lparr>up_id = p_id profile, up_user_id = p_user_id profile,
           up_display_name = p_display_name profile, up_location = p_location profile,
           up_avatar_url = p_avatar_url profile, up_availability = p_availability profile,
           offeredSkills = []\<rparr>)])"

text \<open>
  The second loop: the user's entry, if there is one and the row has its skill, gets the
  skill pushed unless \<open>offeredSkills\<close> has an entry of the same id.
\<close>

definition addOfferedSkill ::
  "(uuid \<times> user_profile) list \<Rightarrow> uuid \<times> skill_ref option \<Rightarrow> (uuid \<times> user_profile) list" where
  "addOfferedSkill userMap userSkill =
     (case map_of userMap (fst userSkill) of
        None \<Rightarrow> userMap
      | Some userProfile \<Rightarrow>
          (case snd userSkill of
             None \<Rightarrow> userMap
           | Some sk \<Rightarrow>
               if find (\<lambda>s. ref_id s = ref_id sk) (offeredSkills userProfile) \<noteq> None
               then userMap
               else map (\<lambda>(k, v). if k = fst userSkill
                                   then (k, v\<lparr>offeredSkills := offeredSkills v @ [sk]\<rparr>)
                                   else (k, v))
                        userMap))"

definition assembleUsers :: "profile_row list \<Rightarrow> (uuid \<times> skill_ref option) list \<Rightarrow> user_profile list" where
  "assembleUsers data allUserSkills =
     map snd (foldl addOfferedSkill (foldl addProfile [] data) allUserSkills)"

definition search_failed :: "search_page \<Rightarrow> error \<Rightarrow> search_page \<times> toast list" where
  "search_failed s e =
     (s\<lparr>search_loading := False\<rparr>, [Toast ''Error searching users'' (message e) True])"

text \<open>
  \<open>searchUsers\<close>, run by user \<open>uid\<close>; \<open>net k\<close> is the fault of its \<open>k\<close>-th backend call,
  in the order of the source, and \<open>lc\<close> the case mapping of the database.
\<close>

definition searchUsers ::
  "(code_point \<Rightarrow> code_point) \<Rightarrow> (nat \<Rightarrow> fault) \<Rightarrow> uuid \<Rightarrow> database \<Rightarrow> search_page
     \<Rightarrow> search_page \<times> toast list" where
  "searchUsers lc net uid d s =
     (if trim (searchTerm s) = [] then (s, [])
      else
       (case query (net 0)
               (select_skill_ids_ilike lc (text_of ''%'' @ searchTerm s @ text_of ''%'') d) of
          Inl e \<Rightarrow> search_failed s e
        | Inr matchingSkills \<Rightarrow>
           (if matchingSkills = [] then (s\<lparr>users := [], search_loading := False\<rparr>, [])
            else
             (case query (net 1) (select_offering_user_ids matchingSkills d) of
                Inl e \<Rightarrow> search_failed s e
              | Inr userSkills \<Rightarrow>
                 (let userIds = unique userSkills in
                  if userIds = [] then (s\<lparr>users := [], search_loading := False\<rparr>, [])
                  else
                   (case query (net 2) (select_public_profiles uid userIds d) of
                      Inl e \<Rightarrow> search_failed s e
                    | Inr data \<Rightarrow>
                       (case query (net 3) (select_offered_skills userIds d) of
                          Inl e \<Rightarrow> search_failed s e
                        | Inr allUserSkills \<Rightarrow>
                            (s\<lparr>users := assembleUsers data allUserSkills,
                               search_loading := False\<rparr>, []))))))))"

section \<open>FeedbackPage\<close>

subsection \<open>Policies and statements on \<open>feedback\<close>\<close>

definition feedback_select_policy :: "uuid \<Rightarrow> feedback_row \<Rightarrow> bool" where
  "feedback_select_policy uid f \<longleftrightarrow> uid = fb_reviewer_id f \<or> uid = fb_reviewee_id f"

definition feedback_insert_policy :: "uuid \<Rightarrow> feedback_row \<Rightarrow> bool" where
  "feedback_insert_policy uid f \<longleftrightarrow> uid = fb_reviewer_id f"

text \<open>
  \<open>INSERT INTO feedback\<close>, run as \<open>uid\<close>. PostgreSQL checks the WITH CHECK policy, then
  NOT NULL and CHECK, then the unique indexes, then the foreign keys; the first failure
  aborts the statement.
\<close>

definition insert_feedback :: "uuid \<Rightarrow> feedback_row \<Rightarrow> database \<Rightarrow> error + database" where
  "insert_feedback uid new d =
     (if \<not> feedback_insert_policy uid new then
        Inl (Error PolicyViolation
          (text_of ''new row violates row-level security policy for table feedback''))
      else case fb_rating new of
        None \<Rightarrow>
          Inl (Error NotNullViolation
            (text_of ''null value in column rating of relation feedback violates not-null constraint''))
      | Some r \<Rightarrow>
          if \<not> (1 \<le> r \<and> r \<le> 5) then
            Inl (Error CheckViolation
              (text_of ''new row for relation feedback violates check constraint feedback_rating_check''))
          else if fb_id new \<in> set (map fb_id (feedback d)) then
            Inl (Error UniqueViolation
              (text_of ''duplicate key value violates unique constraint feedback_pkey''))
          else if (fb_swap_request_id new, fb_reviewer_id new)
                    \<in> set (map (\<lambda>f. (fb_swap_request_id f, fb_reviewer_id f)) (feedback d)) then
            Inl (Error UniqueViolation
              (text_of ''duplicate key value violates unique constraint feedback_swap_request_id_reviewer_id_key''))
          else if fb_swap_request_id new \<notin> set (map sr_id (swap_requests d)) then
            Inl (Error ForeignKeyViolation
              (text_of ''insert or update on table feedback violates foreign key constraint feedback_swap_request_id_fkey''))
          else if fb_reviewer_id new \<notin> set (auth_users d) then
            Inl (Error ForeignKeyViolation
              (text_of ''insert or update on table feedback violates foreign key constraint feedback_reviewer_id_fkey''))
          else if fb_reviewee_id new \<notin> set (auth_users d) then
            Inl (Error ForeignKeyViolation
              (text_of ''insert or update on table feedback violates foreign key constraint feedback_reviewee_id_fkey''))
          else Inr (d\<lparr>feedback := feedback d @ [new]\<rparr>))"

text \<open>
  \<open>.order('created_at', { ascending: false })\<close>. The database fixes no order among rows of
  equal \<open>created_at\<close>; the model leaves them in their stored order, and no statement
  below depends on the order of an answer.
\<close>

definition newest_first :: "('a \<Rightarrow> timestamp) \<Rightarrow> 'a list \<Rightarrow> 'a list" where
  "newest_first created xs = sort_key (\<lambda>x. - int (created x)) xs"

text \<open>
  \<open>from('swap_requests').select(...).eq('status', 'accepted').or('requester_id.eq.uid,recipient_id.eq.uid').order(...)\<close>
\<close>

definition select_accepted_swaps :: "uuid \<Rightarrow> database \<Rightarrow> error + swap_request_row list" where
  "select_accepted_swaps uid d =
     Inr (newest_first sr_created_at
            (filter (\<lambda>r. swap_requests_select_policy uid r \<and> sr_status r = accepted
                          \<and> (sr_requester_id r = uid \<or> sr_recipient_id r = uid))
                    (swap_requests d)))"

definition select_profiles_in :: "uuid \<Rightarrow> uuid list \<Rightarrow> database \<Rightarrow> error + profile_row list" where
  "select_profiles_in uid userIds d =
     Inr (filter (\<lambda>p. profiles_select_policy uid p \<and> p_user_id p \<in> set userIds) (profiles d))"

definition select_skills_in :: "uuid list \<Rightarrow> database \<Rightarrow> error + skill_row list" where
  "select_skills_in skillIds d = Inr (filter (\<lambda>s. sk_id s \<in> set skillIds) (skills d))"

text \<open>
  \<open>from('feedback').select('swap_request_id').in('swap_request_id', swapIds).eq('reviewer_id', uid)\<close>
\<close>

definition select_feedback_swap_ids :: "uuid \<Rightarrow> uuid list \<Rightarrow> database \<Rightarrow> error + uuid list" where
  "select_feedback_swap_ids uid swapIds d =
     Inr (map fb_swap_request_id
            (filter (\<lambda>f. feedback_select_policy uid f \<and> fb_swap_request_id f \<in> set swapIds
                          \<and> fb_reviewer_id f = uid)
                    (feedback d)))"

text \<open>\<open>from('feedback').select(...).eq('reviewee_id', uid).order(...)\<close>\<close>

definition select_feedback_about :: "uuid \<Rightarrow> database \<Rightarrow> error + feedback_row list" where
  "select_feedback_about uid d =
     Inr (newest_first fb_created_at
            (filter (\<lambda>f. feedback_select_policy uid f \<and> fb_reviewee_id f = uid) (feedback d)))"

subsection \<open>The page\<close>

record accepted_swap =
  as_id :: uuid
  as_created_at :: timestamp
  as_requester :: party
  as_recipient :: party
  as_offered_skill :: "skill_ref option"
  as_wanted_skill :: "skill_ref option"
  has_feedback :: bool

record feedback_view =
  fv_id :: uuid
  fv_rating :: "int option"
  fv_comment :: "string option"
  fv_created_at :: timestamp
  fv_reviewer :: party
  fv_reviewee :: party

record feedback_form =
  swapRequestId :: string
  revieweeId :: string
  rating :: string
  comment :: string

record feedback_page =
  fp_loading :: bool
  acceptedSwaps :: "accepted_swap list"
  myFeedback :: "feedback_view list"
  feedbackForm :: feedback_form
  submitting :: bool

text \<open>
  \<open>new Map(rows.map(p => [p.user_id, p]))\<close>: a later row of the same key replaces an
  earlier one. A party is \<open>{ id, ...profilesMap.get(id) }\<close>: without a profile row its
  name and avatar are undefined.
\<close>

definition profilesMap :: "profile_row list \<Rightarrow> uuid \<Rightarrow> profile_row option" where
  "profilesMap rows = map_of (rev (map (\<lambda>p. (p_user_id p, p)) rows))"

definition skillsMap :: "skill_row list \<Rightarrow> uuid \<Rightarrow> skill_ref option" where
  "skillsMap rows =
     map_of (rev (map (\<lambda>s. (sk_id s, \<lparr>ref_id = sk_id s, ref_name = sk_name s\<rparr>)) rows))"

definition party_of :: "(uuid \<Rightarrow> profile_row option) \<Rightarrow> uuid \<Rightarrow> party" where
  "party_of pm u =
     \<lparr>party_id = u,
      party_display_name = (case pm u of None \<Rightarrow> None | Some p \<Rightarrow> p_display_name p),
      party_avatar_url = (case pm u of None \<Rightarrow> None | Some p \<Rightarrow> p_avatar_url p)\<rparr>"

definition load_failed :: "feedback_page \<Rightarrow> error \<Rightarrow> feedback_page \<times> toast list" where
  "load_failed s e = (s\<lparr>fp_loading := False\<rparr>, [Toast ''Error loading swaps'' (message e) True])"

text \<open>
  \<open>fetchAcceptedSwaps\<close>. The profile and the skill query are sent together and their
  errors looked at in this order; the error of the feedback query is not looked at, its
  rows then count as none.
\<close>

definition fetchAcceptedSwaps ::
  "(nat \<Rightarrow> fault) \<Rightarrow> uuid \<Rightarrow> database \<Rightarrow> feedback_page \<Rightarrow> feedback_page \<times> toast list" where
  "fetchAcceptedSwaps net uid d s =
     (case query (net 0) (select_accepted_swaps uid d) of
        Inl e \<Rightarrow> load_failed s e
      | Inr data \<Rightarrow>
         (let userIds = unique (map sr_requester_id data @ map sr_recipient_id data);
              skillIds = unique (map sr_offered_skill_id data @ map sr_wanted_skill_id data)
          in
           (case query (net 1) (select_profiles_in uid userIds d) of
              Inl e \<Rightarrow> load_failed s e
            | Inr ps \<Rightarrow>
               (case query (net 2) (select_skills_in skillIds d) of
                  Inl e \<Rightarrow> load_failed s e
                | Inr sks \<Rightarrow>
                   (let swapIds = map sr_id data;
                        existingFeedback =
                          (case query (net 3) (select_feedback_swap_ids uid swapIds d) of
                             Inl e \<Rightarrow> []
                           | Inr ids \<Rightarrow> ids)
                    in (s\<lparr>acceptedSwaps :=
                           map (\<lambda>swap.
                                 \<lparr>as_id = sr_id swap,
                                  as_created_at = sr_created_at swap,
                                  as_requester = party_of (profilesMap ps) (sr_requester_id swap),
                                  as_recipient = party_of (profilesMap ps) (sr_recipient_id swap),
                                  as_offered_skill = skillsMap sks (sr_offered_skill_id swap),
                                  as_wanted_skill = skillsMap sks (sr_wanted_skill_id swap),
                                  has_feedback = (sr_id swap \<in> set existingFeedback)\<rparr>)
                               data,
                          fp_loading := False\<rparr>, []))))))"

text \<open>\<open>fetchMyFeedback\<close>: an error goes to the console, the state stays.\<close>

definition fetchMyFeedback :: "(nat \<Rightarrow> fault) \<Rightarrow> uuid \<Rightarrow> database \<Rightarrow> feedback_page \<Rightarrow> feedback_page" where
  "fetchMyFeedback net uid d s =
     (case query (net 0) (select_feedback_about uid d) of
        Inl e \<Rightarrow> s
      | Inr data \<Rightarrow>
         (let userIds = unique (map fb_reviewer_id data @ map fb_reviewee_id data) in
           (case query (net 1) (select_profiles_in uid userIds d) of
              Inl e \<Rightarrow> s
            | Inr ps \<Rightarrow>
                s\<lparr>myFeedback :=
                    map (\<lambda>f. \<lparr>fv_id = fb_id f, fv_rating = fb_rating f,
                              fv_comment = fb_comment f, fv_created_at = fb_created_at f,
                              fv_reviewer = party_of (profilesMap ps) (fb_reviewer_id f),
                              fv_reviewee = party_of (profilesMap ps) (fb_reviewee_id f)\<rparr>)
                        data\<rparr>)))"

text \<open>The list the page offers for review.\<close>

definition pendingFeedback :: "feedback_page \<Rightarrow> accepted_swap list" where
  "pendingFeedback s = filter (\<lambda>swap. \<not> has_feedback swap) (acceptedSwaps s)"

text \<open>\<open>onValueChange\<close> of the swap selector, run by user \<open>uid\<close>.\<close>

definition selectSwap :: "uuid \<Rightarrow> string \<Rightarrow> feedback_page \<Rightarrow> feedback_page" where
  "selectSwap uid v s =
     (case find (\<lambda>sw. as_id sw = v) (acceptedSwaps s) of
        None \<Rightarrow> s
      | Some swap \<Rightarrow>
         (let otherUser = (if party_id (as_requester swap) = uid
                           then as_recipient swap else as_requester swap)
          in s\<lparr>feedbackForm :=
                 (feedbackForm s)\<lparr>swapRequestId := v, revieweeId := party_id otherUser\<rparr>\<rparr>))"

text \<open>\<open>onValueChange\<close> of the rating selector, whose items are \<open>1\<close> to \<open>5\<close>.\<close>

definition selectRating :: "string \<Rightarrow> feedback_page \<Rightarrow> feedback_page" where
  "selectRating v s = s\<lparr>feedbackForm := (feedbackForm s)\<lparr>rating := v\<rparr>\<rparr>"

subsection \<open>\<open>parseInt\<close>\<close>

text \<open>
  \<open>parseInt(str)\<close> without a radix, on a string of characters below 256 (the rating is a
  value of the selector): leading white space and one sign are skipped, \<open>0x\<close>
  selects base 16, and the longest prefix of digits is the value; no digit gives \<open>NaN\<close>,
  here \<open>None\<close>, which goes to the backend as \<open>null\<close>. The value is exact (the rounding
  of very long numerals to a double is not modelled).
\<close>

definition digit :: "nat \<Rightarrow> char \<Rightarrow> nat option" where
  "digit R c =
     (let n = (of_char c :: nat) in
      if 48 \<le> n \<and> n \<le> 57 then Some (n - 48)
      else if R = 16 \<and> 97 \<le> n \<and> n \<le> 102 then Some (n - 87)
      else if R = 16 \<and> 65 \<le> n \<and> n \<le> 70 then Some (n - 55)
      else None)"

definition parseInt :: "string \<Rightarrow> int option" where
  "parseInt str =
     (let s0 = dropWhile (\<lambda>c. white_space (of_char c)) str;
          neg = (take 1 s0 = ''-'');
          s1 = (if take 1 s0 = ''-'' \<or> take 1 s0 = ''+'' then drop 1 s0 else s0);
          hex = (take 2 s1 = ''0x'' \<or> take 2 s1 = ''0X'');
          R = (if hex then 16 else 10);
          s2 = (if hex then drop 2 s1 else s1);
          Z = takeWhile (\<lambda>c. digit R c \<noteq> None) s2;
          v = foldl (\<lambda>a c. a * R + (case digit R c of None \<Rightarrow> 0 | Some k \<Rightarrow> k)) 0 Z
      in if Z = [] then None else Some (if neg then - int v else int v))"

text \<open>
  \<open>submitFeedback\<close>, run by user \<open>uid\<close>. \<open>net 0\<close> is the fault of the insert, the
  following ones those of the two refreshes; \<open>nid\<close> and \<open>now\<close> are the new row's
  \<open>gen_random_uuid()\<close> and \<open>now()\<close>.
\<close>

definition submitFeedback ::
  "(nat \<Rightarrow> fault) \<Rightarrow> timestamp \<Rightarrow> uuid \<Rightarrow> uuid \<Rightarrow> database \<times> feedback_page
     \<Rightarrow> database \<times> feedback_page \<times> toast list" where
  "submitFeedback net now nid uid w =
     (let d = fst w; s = snd w; form = feedbackForm s in
      if rating form = [] \<or> revieweeId form = [] then
        (d, s, [Toast ''Please complete the form'' (text_of ''Rating is required to submit feedback.'') True])
      else
       (case mutate (net 0)
               (insert_feedback uid
                  \<lparr>fb_id = nid, fb_swap_request_id = swapRequestId form,
                   fb_reviewer_id = uid, fb_reviewee_id = revieweeId form,
                   fb_rating = parseInt (rating form), fb_comment = Some (comment form),
                   fb_created_at = now\<rparr>) d of
          (Some e, d') \<Rightarrow>
            (d', s\<lparr>submitting := False\<rparr>,
             [Toast ''Error submitting feedback'' (message e) True])
        | (None, d') \<Rightarrow>
           (let s1 = s\<lparr>feedbackForm :=
                        \<lparr>swapRequestId = [], revieweeId = [], rating = [], comment = []\<rparr>\<rparr>;
                r = fetchAcceptedSwaps (\<lambda>k. net (k + 1)) uid d' s1;
                s2 = fetchMyFeedback (\<lambda>k. net (k + 5)) uid d' (fst r)
            in (d', s2\<lparr>submitting := False\<rparr>,
                Toast ''Feedback submitted!'' (text_of ''Thank you for your feedback.'') False # snd r))))"

section \<open>SkillsPage\<close>

subsection \<open>Statements on \<open>skills\<close> and \<open>user_skills\<close>\<close>

text \<open>
  \<open>from('skills').insert({ name }).select().single()\<close>: any signed-in user may insert
  and read; \<open>name\<close> is unique; the new row is returned.
\<close>

definition insert_skill :: "timestamp \<Rightarrow> uuid \<Rightarrow> utext \<Rightarrow> database \<Rightarrow> error + skill_row \<times> database" where
  "insert_skill now nid name d =
     (let new = \<lparr>sk_id = nid, sk_name = name, sk_category = None,
                 sk_is_approved = Some True, sk_created_at = now\<rparr>
      in if nid \<in> set (map sk_id (skills d)) then
           Inl (Error UniqueViolation (text_of ''duplicate key value violates unique constraint skills_pkey''))
         else if name \<in> set (map sk_name (skills d)) then
           Inl (Error UniqueViolation
             (text_of ''duplicate key value violates unique constraint skills_name_key''))
         else Inr (new, d\<lparr>skills := skills d @ [new]\<rparr>))"

definition user_skills_policy :: "uuid \<Rightarrow> user_skill_row \<Rightarrow> bool" where
  "user_skills_policy uid us \<longleftrightarrow> uid = us_user_id us"

text \<open>
  \<open>from('user_skills').insert({ user_id, skill_id, skill_type }).select('id, skill_type, skills (id, name, category)').single()\<close>:
  the new row is returned with the skill it refers to.
\<close>

definition insert_user_skill ::
  "uuid \<Rightarrow> user_skill_row \<Rightarrow> database
     \<Rightarrow> error + (user_skill_row \<times> skill_row option) \<times> database" where
  "insert_user_skill uid new d =
     (if \<not> user_skills_policy uid new then
        Inl (Error PolicyViolation
          (text_of ''new row violates row-level security policy for table user_skills''))
      else if us_id new \<in> set (map us_id (user_skills d)) then
        Inl (Error UniqueViolation
          (text_of ''duplicate key value violates unique constraint user_skills_pkey''))
      else if (us_user_id new, us_skill_id new, us_skill_type new)
                \<in> set (map (\<lambda>us. (us_user_id us, us_skill_id us, us_skill_type us)) (user_skills d)) then
        Inl (Error UniqueViolation
          (text_of ''duplicate key value violates unique constraint user_skills_user_id_skill_id_skill_type_key''))
      else if us_user_id new \<notin> set (auth_users d) then
        Inl (Error ForeignKeyViolation
          (text_of ''insert or update on table user_skills violates foreign key constraint user_skills_user_id_fkey''))
      else if us_skill_id new \<notin> set (map sk_id (skills d)) then
        Inl (Error ForeignKeyViolation
          (text_of ''insert or update on table user_skills violates foreign key constraint user_skills_skill_id_fkey''))
      else Inr ((new, find (\<lambda>s. sk_id s = us_skill_id new) (skills d)),
                d\<lparr>user_skills := user_skills d @ [new]\<rparr>))"

text \<open>An insert that returns its row, sent through the client.\<close>

definition mutate_returning ::
  "fault \<Rightarrow> (database \<Rightarrow> error + 'a \<times> database) \<Rightarrow> database \<Rightarrow> (error + 'a) \<times> database" where
  "mutate_returning flt stmt d =
     (case flt of
        Some e \<Rightarrow> (Inl e, d)
      | None \<Rightarrow> (case stmt d of Inl e \<Rightarrow> (Inl e, d) | Inr (x, d') \<Rightarrow> (Inr x, d')))"

subsection \<open>The page\<close>

text \<open>
  \<open>allSkills\<close> holds rows of \<open>select('*')\<close>; a user skill of the page holds the embedded
  skill, of which the page reads \<open>id\<close>, \<open>name\<close> and \<open>category\<close>.
\<close>

record user_skill_view =
  usv_id :: uuid
  usv_skill :: "skill_row option"
  usv_skill_type :: skill_type

record skills_page =
  skp_loading :: bool
  newSkillName :: utext
  userSkills :: "user_skill_view list"
  allSkills :: "skill_row list"
  adding :: bool

fun skill_type_text :: "skill_type \<Rightarrow> string" where
  "skill_type_text offered = ''offered''"
| "skill_type_text wanted = ''wanted''"

definition add_failed :: "database \<Rightarrow> skills_page \<Rightarrow> error \<Rightarrow> database \<times> skills_page \<times> toast list" where
  "add_failed d s e = (d, s\<lparr>adding := False\<rparr>, [Toast ''Error adding skill'' (message e) True])"

text \<open>The second half of \<open>addSkill\<close>: the user skill is inserted for the skill \<open>skill\<close>.\<close>

definition addUserSkill ::
  "fault \<Rightarrow> timestamp \<Rightarrow> uuid \<Rightarrow> uuid \<Rightarrow> skill_type \<Rightarrow> skill_row \<Rightarrow> database \<times> skills_page
     \<Rightarrow> database \<times> skills_page \<times> toast list" where
  "addUserSkill flt now nid uid skillType skill w =
     (case mutate_returning flt
             (insert_user_skill uid
                \<lparr>us_id = nid, us_user_id = uid, us_skill_id = sk_id skill,
                 us_skill_type = skillType, us_created_at = now\<rparr>) (fst w) of
        (Inl e, d') \<Rightarrow> add_failed d' (snd w) e
      | (Inr row, d') \<Rightarrow>
          (d',
           (snd w)\<lparr>userSkills := userSkills (snd w) @
                      [\<lparr>usv_id = us_id (fst row), usv_skill = snd row,
                        usv_skill_type = us_skill_type (fst row)\<rparr>],
                    newSkillName := [], adding := False\<rparr>,
           [Toast ''Skill added''
                  (sk_name skill @ text_of ('' has been added to your '' @ skill_type_text skillType
                     @ '' skills.'')) False]))"

text \<open>
  The lookup at the head of \<open>addSkill\<close>:
  \<open>allSkills.find(s => s.name.toLowerCase() === newSkillName.toLowerCase())\<close>.
\<close>

definition lookupSkill :: "(utext \<Rightarrow> utext) \<Rightarrow> skills_page \<Rightarrow> skill_row option" where
  "lookupSkill lower s =
     find (\<lambda>sk. lower (sk_name sk) = lower (newSkillName s)) (allSkills s)"

text \<open>
  \<open>addSkill(skillType)\<close>, run by user \<open>uid\<close>: \<open>net 0\<close> is the fault of the insert into
  \<open>skills\<close>, \<open>net 1\<close> that of the insert into \<open>user_skills\<close>; \<open>nid1\<close> and \<open>nid2\<close> are
  the identifiers the two inserts draw; \<open>lower\<close> is \<open>toLowerCase\<close>.
\<close>

definition addSkill ::
  "(utext \<Rightarrow> utext) \<Rightarrow> (nat \<Rightarrow> fault) \<Rightarrow> timestamp \<Rightarrow> uuid \<Rightarrow> uuid \<Rightarrow> uuid \<Rightarrow> skill_type
     \<Rightarrow> database \<times> skills_page \<Rightarrow> database \<times> skills_page \<times> toast list" where
  "addSkill lower net now nid1 nid2 uid skillType w =
     (let d = fst w; s = snd w in
      if trim (newSkillName s) = [] then (d, s, [])
      else
       (case lookupSkill lower s of
          Some skill \<Rightarrow> addUserSkill (net 1) now nid2 uid skillType skill (d, s)
        | None \<Rightarrow>
           (case mutate_returning (net 0) (insert_skill now nid1 (trim (newSkillName s))) d of
              (Inl e, d') \<Rightarrow> add_failed d' s e
            | (Inr newSkill, d') \<Rightarrow>
                addUserSkill (net 1) now nid2 uid skillType newSkill
                  (d', s\<lparr>allSkills := allSkills s @ [newSkill]\<rparr>))))"

section \<open>A small instance\<close>

text \<open>
  Three users. Alice and Bob have public profiles, Carol's is private. Alice offers
  Guitar; Bob offers Guitar and Spanish; Carol offers Guitar. Bob has asked Alice for a
  swap, Spanish for Guitar; the status of that request is the parameter.
\<close>

definition demo_request :: "status \<Rightarrow> swap_request_row" where
  "demo_request st =
     \<lparr>sr_id = ''r1'', sr_requester_id = ''bob'', sr_recipient_id = ''alice'',
      sr_offered_skill_id = ''s2'', sr_wanted_skill_id = ''s1'', sr_message = Some ''hello'',
      sr_status = st, sr_created_at = 3, sr_updated_at = 3\<rparr>"

definition demo_profile :: "uuid \<Rightarrow> uuid \<Rightarrow> bool option \<Rightarrow> profile_row" where
  "demo_profile pid u pub =
     \<lparr>p_id = pid, p_user_id = u, p_display_name = Some u, p_location = None,
      p_avatar_url = None, p_availability = None, p_is_public = pub\<rparr>"

definition demo_skill :: "uuid \<Rightarrow> string \<Rightarrow> skill_row" where
  "demo_skill sid n =
     \<lparr>sk_id = sid, sk_name = text_of n, sk_category = None, sk_is_approved = Some True,
      sk_created_at = 1\<rparr>"

definition demo_user_skill :: "uuid \<Rightarrow> uuid \<Rightarrow> uuid \<Rightarrow> skill_type \<Rightarrow> user_skill_row" where
  "demo_user_skill i u sid t =
     \<lparr>us_id = i, us_user_id = u, us_skill_id = sid, us_skill_type = t, us_created_at = 2\<rparr>"

definition demo_db :: "status \<Rightarrow> database" where
  "demo_db st =
     \<lparr>auth_users = [''alice'', ''bob'', ''carol''],
      profiles = [demo_profile ''p1'' ''alice'' (Some True),
                  demo_profile ''p2'' ''bob'' (Some True),
                  demo_profile ''p3'' ''carol'' (Some False)],
      skills = [demo_skill ''s1'' ''Guitar'', demo_skill ''s2'' ''Spanish''],
      user_skills = [demo_user_skill ''k1'' ''alice'' ''s1'' offered,
                     demo_user_skill ''k2'' ''bob'' ''s1'' offered,
                     demo_user_skill ''k3'' ''bob'' ''s2'' offered,
                     demo_user_skill ''k4'' ''carol'' ''s1'' offered,
                     demo_user_skill ''k5'' ''bob'' ''s1'' wanted],
      swap_requests = [demo_request st],
      feedback = []\<rparr>"

definition demo_view :: "uuid \<Rightarrow> status \<Rightarrow> swap_request_view" where
  "demo_view i st =
     \<lparr>rq_id = i, rq_message = Some ''hello'', rq_status = st, rq_created_at = 3,
      rq_requester = \<lparr>party_id = ''bob'', party_display_name = Some ''bob'',
                       party_avatar_url = None\<rparr>,
      rq_recipient = \<lparr>party_id = ''alice'', party_display_name = Some ''alice'',
                       party_avatar_url = None\<rparr>,
      rq_offered_skill = Some \<lparr>ref_id = ''s2'', ref_name = text_of ''Spanish''\<rparr>,
      rq_wanted_skill = Some \<lparr>ref_id = ''s1'', ref_name = text_of ''Guitar''\<rparr>\<rparr>"

text \<open>Alice's page: the request of Bob among the received ones.\<close>

definition demo_received :: "status \<Rightarrow> swap_requests_page" where
  "demo_received st =
     \<lparr>srp_loading = False, sentRequests = [demo_view ''r0'' pending],
      receivedRequests = [demo_view ''r1'' st, demo_view ''r2'' pending]\<rparr>"

text \<open>Bob's page: his request among the sent ones.\<close>

definition demo_sent :: "status \<Rightarrow> swap_requests_page" where
  "demo_sent st =
     \<lparr>srp_loading = False, sentRequests = [demo_view ''r1'' st], receivedRequests = []\<rparr>"

definition no_fault :: "nat \<Rightarrow> fault" where
  "no_fault k = None"

section \<open>Notions used in the statements and proofs\<close>

text \<open>The characters that are not taken literally in the value of an \<open>ilike\<close> filter.\<close>

definition wildcard :: "code_point \<Rightarrow> bool" where
  "wildcard c \<longleftrightarrow> c \<in> set [37, 95, 92, 42]"

text \<open>
  What the statements on the search assume of the case mapping of the database: it maps
  each of these four characters to itself, and no other character to one of them.
\<close>

definition case_mapping :: "(code_point \<Rightarrow> code_point) \<Rightarrow> bool" where
  "case_mapping lc \<longleftrightarrow>
     (\<forall>c. wildcard c \<longrightarrow> lc c = c) \<and> (\<forall>c. \<not> wildcard c \<longrightarrow> \<not> wildcard (lc c))"

text \<open>The rows of the third query of \<open>searchUsers\<close>, and the identifiers the first two yield.\<close>

definition public_rows :: "uuid \<Rightarrow> uuid list \<Rightarrow> database \<Rightarrow> profile_row list" where
  "public_rows uid userIds d =
     filter (\<lambda>p. profiles_select_policy uid p \<and> p_is_public p = Some True
                       \<and> p_user_id p \<noteq> uid \<and> p_user_id p \<in> set userIds) (profiles d)"

definition matching_ids :: "(code_point \<Rightarrow> code_point) \<Rightarrow> utext \<Rightarrow> database \<Rightarrow> uuid list" where
  "matching_ids lc t d =
     map sk_id
       (filter (\<lambda>sk. ilike lc (text_of ''%'' @ t @ text_of ''%'') (sk_name sk) = Inr True)
          (skills d))"

definition offering_ids :: "(code_point \<Rightarrow> code_point) \<Rightarrow> utext \<Rightarrow> database \<Rightarrow> uuid list" where
  "offering_ids lc t d =
     unique (map us_user_id
       (filter (\<lambda>us. us_skill_type us = offered
                 \<and> us_skill_id us \<in> set (matching_ids lc t d))
          (user_skills d)))"

text \<open>
  Two invariants of \<open>userMap\<close>: every entry comes from a profile row; the keys are
  distinct and no entry lists a skill identifier twice.
\<close>

definition from_rows :: "profile_row list \<Rightarrow> (uuid \<times> user_profile) list \<Rightarrow> bool" where
  "from_rows rows m \<longleftrightarrow>
     (\<forall>kv \<in> set m. \<exists>p \<in> set rows. up_id (snd kv) = p_id p \<and> up_user_id (snd kv) = p_user_id p)"

definition skills_once :: "(uuid \<times> user_profile) list \<Rightarrow> bool" where
  "skills_once m \<longleftrightarrow>
     distinct (map fst m) \<and> (\<forall>kv \<in> set m. distinct (map ref_id (offeredSkills (snd kv))))"

text \<open>
  The rows of the first query of \<open>fetchAcceptedSwaps\<close>, and whether the user has
  reviewed a swap.
\<close>

definition accepted_for :: "uuid \<Rightarrow> database \<Rightarrow> swap_request_row list" where
  "accepted_for uid d =
     newest_first sr_created_at
       (filter (\<lambda>r. sr_status r = accepted \<and> (sr_requester_id r = uid \<or> sr_recipient_id r = uid))
          (swap_requests d))"

definition reviewed_by :: "uuid \<Rightarrow> database \<Rightarrow> swap_request_row \<Rightarrow> bool" where
  "reviewed_by uid d r \<longleftrightarrow>
     (\<exists>f \<in> set (feedback d). fb_swap_request_id f = sr_id r \<and> fb_reviewer_id f = uid)"

subsection \<open>More of the small instance\<close>

text \<open>Alice's search page, and the entry that a search for guitar players shows her.\<close>

definition demo_search :: "string \<Rightarrow> user_profile list \<Rightarrow> search_page" where
  "demo_search t us = \<lparr>searchTerm = text_of t, users = us, search_loading = False\<rparr>"

definition demo_bob :: user_profile where
  "demo_bob =
     \<lparr>up_id = ''p2'', up_user_id = ''bob'', up_display_name = Some ''bob'', up_location = None,
      up_avatar_url = None, up_availability = None,
      offeredSkills = [\<lparr>ref_id = ''s1'', ref_name = text_of ''Guitar''\<rparr>,
                       \<lparr>ref_id = ''s2'', ref_name = text_of ''Spanish''\<rparr>]\<rparr>"

text \<open>
  Alice's feedback page as it is mounted, and after she has loaded it, selected Bob's
  swap and chosen five stars.
\<close>

definition demo_feedback_page :: feedback_page where
  "demo_feedback_page =
     \<lparr>fp_loading = True, acceptedSwaps = [], myFeedback = [],
      feedbackForm = \<lparr>swapRequestId = [], revieweeId = [], rating = [], comment = []\<rparr>,
      submitting = False\<rparr>"

definition demo_review :: feedback_page where
  "demo_review =
     selectRating ''5'' (selectSwap ''alice'' ''r1''
       (fst (fetchAcceptedSwaps no_fault ''alice'' (demo_db accepted) demo_feedback_page)))"

text \<open>
  A skills page with a given entry and cached skill list, and a network on which the
  \<open>j\<close>-th call of a handler fails.
\<close>

definition demo_skills_page :: "string \<Rightarrow> skill_row list \<Rightarrow> skills_page" where
  "demo_skills_page n cache =
     \<lparr>skp_loading = False, newSkillName = text_of n, userSkills = [], allSkills = cache,
      adding = False\<rparr>"

definition net_down :: "nat \<Rightarrow> nat \<Rightarrow> fault" where
  "net_down j k = (if k = j then Some (Error TransportError (text_of ''Failed to fetch'')) else None)"

text \<open>The tables once Alice has reviewed the accepted request of Bob.\<close>

definition demo_reviewed :: database where
  "demo_reviewed =
     (demo_db accepted)
       \<lparr>feedback := [\<lparr>fb_id = ''f1'', fb_swap_request_id = ''r1'', fb_reviewer_id = ''alice'',
                      fb_reviewee_id = ''bob'', fb_rating = Some 5, fb_comment = Some [],
                      fb_created_at = 7\<rparr>]\<rparr>"

section \<open>Properties of the swap request handlers\<close>

lemma result_simps [simp]:
  "tables_of (d, s, ts) = d" "page_of (d, s, ts) = s" "toasts_of (d, s, ts) = ts"
  by (simp_all add: tables_of_def page_of_def toasts_of_def)

lemma mutate_update_no_fault:
  "mutate None (update_swap_request_status now uid rid st) d =
     (None, d\<lparr>swap_requests :=
        map (\<lambda>r. if sr_id r = rid \<and> (uid = sr_requester_id r \<or> uid = sr_recipient_id r)
                  then r\<lparr>sr_status := st, sr_updated_at := now\<rparr> else r) (swap_requests d)\<rparr>)"
  by (simp add: mutate_def update_swap_request_status_def swap_requests_select_policy_def
      swap_requests_update_policy_def)

lemma mutate_update_error_iff:
  "fst (mutate flt (update_swap_request_status now uid rid st) d) = None \<longleftrightarrow> flt = None"
  by (cases flt) (simp_all add: mutate_def update_swap_request_status_def)

lemma tables_deleteRequest:
  "tables_of (deleteRequest flt uid rid (d, s)) = snd (mutate flt (delete_swap_request uid rid) d)"
  by (simp add: deleteRequest_def split: prod.splits option.splits)

lemma mutate_delete:
  "mutate flt (delete_swap_request uid rid) d =
     (case flt of Some e \<Rightarrow> (Some e, d)
      | None \<Rightarrow> (None,
          d\<lparr>swap_requests :=
               filter (\<lambda>r. \<not> (sr_id r = rid \<and> uid = sr_requester_id r \<and> sr_status r = pending))
                      (swap_requests d),
             feedback :=
               filter (\<lambda>f. fb_swap_request_id f \<notin>
                  sr_id ` {r \<in> set (swap_requests d).
                     sr_id r = rid \<and> uid = sr_requester_id r \<and> sr_status r = pending})
                 (feedback d)\<rparr>))"
  by (auto simp add: mutate_def delete_swap_request_def swap_requests_select_policy_def
      swap_requests_delete_policy_def Let_def split: option.splits
      intro!: arg_cong2 [where f = "\<lambda>a b. d\<lparr>swap_requests := a, feedback := b\<rparr>"] filter_cong)

text \<open>
  C10. When the backend answers a status update without an error, \<open>updateRequestStatus\<close>
  leaves \<open>sentRequests\<close> and the loading flag as they were, keeps the length of
  \<open>receivedRequests\<close>, leaves every entry of another id as it was, and changes the entry
  of the given id in its status field alone.
\<close>

theorem updateRequestStatus_frame:
  assumes ok: "fst (mutate flt (update_swap_request_status now uid rid st) d) = None"
    and run: "updateRequestStatus flt now uid rid st (d, s) = (d', s', ts)"
  shows "sentRequests s' = sentRequests s \<and> srp_loading s' = srp_loading s
    \<and> length (receivedRequests s') = length (receivedRequests s)
    \<and> (\<forall>i < length (receivedRequests s).
          (rq_id (receivedRequests s ! i) \<noteq> rid \<longrightarrow> receivedRequests s' ! i = receivedRequests s ! i)
        \<and> (rq_id (receivedRequests s ! i) = rid \<longrightarrow>
              receivedRequests s' ! i = (receivedRequests s ! i)\<lparr>rq_status := st\<rparr>)
        \<and> (receivedRequests s' ! i)\<lparr>rq_status := rq_status (receivedRequests s ! i)\<rparr>
              = receivedRequests s ! i)"
proof -
  from ok have flt: "flt = None" by (simp add: mutate_update_error_iff)
  from run have s': "s' = s\<lparr>receivedRequests :=
      map (\<lambda>req. if rq_id req = rid then req\<lparr>rq_status := st\<rparr> else req) (receivedRequests s)\<rparr>"
    unfolding updateRequestStatus_def flt mutate_update_no_fault by simp
  show ?thesis unfolding s' by simp
qed

theorem updateRequestStatus_frame_witness:
  "receivedRequests (page_of (updateRequestStatus None 9 ''alice'' ''r1'' accepted
       (demo_db pending, demo_received pending)))
     = [demo_view ''r1'' accepted, demo_view ''r2'' pending]
   \<and> sentRequests (page_of (updateRequestStatus None 9 ''alice'' ''r1'' accepted
       (demo_db pending, demo_received pending))) = [demo_view ''r0'' pending]"
proof -
  let ?R = "updateRequestStatus None 9 ''alice'' ''r1'' accepted
       (demo_db pending, demo_received pending)"
  have run: "?R = (tables_of ?R, page_of ?R, toasts_of ?R)"
    by (simp add: tables_of_def page_of_def toasts_of_def)
  have ok: "fst (mutate None (update_swap_request_status 9 ''alice'' ''r1'' accepted)
       (demo_db pending)) = None"
    by (simp add: mutate_update_error_iff)
  from updateRequestStatus_frame [OF ok run]
  have sent: "sentRequests (page_of ?R) = [demo_view ''r0'' pending]"
    and len: "length (receivedRequests (page_of ?R)) = 2"
    and 0: "receivedRequests (page_of ?R) ! 0 = demo_view ''r1'' accepted"
    and 1: "receivedRequests (page_of ?R) ! 1 = demo_view ''r2'' pending"
    by (simp_all add: demo_received_def demo_view_def)
  have "receivedRequests (page_of ?R) = [demo_view ''r1'' accepted, demo_view ''r2'' pending]"
  proof (rule nth_equalityI)
    show "length (receivedRequests (page_of ?R))
        = length [demo_view ''r1'' accepted, demo_view ''r2'' pending]"
      using len by simp
    fix i assume "i < length (receivedRequests (page_of ?R))"
    with len have "i = 0 \<or> i = 1" by auto
    with 0 1 show "receivedRequests (page_of ?R) ! i
        = [demo_view ''r1'' accepted, demo_view ''r2'' pending] ! i"
      by auto
  qed
  with sent show ?thesis by simp
qed

text \<open>
  C1, as stated, fails. Alice, the recipient, declines a request that is already accepted:
  the stored status becomes rejected and the page reports success. Carol, who is no
  party to the request, accepts it: the page reports success as well, no error.
\<close>

theorem status_update_counterexample:
  "map sr_status (swap_requests (tables_of (updateRequestStatus None 9 ''alice'' ''r1'' rejected
       (demo_db accepted, demo_received accepted)))) = [rejected]
   \<and> toasts_of (updateRequestStatus None 9 ''alice'' ''r1'' rejected
       (demo_db accepted, demo_received accepted))
     = [Toast ''Request rejected'' (text_of ''The swap request has been rejected.'') False]
   \<and> toasts_of (updateRequestStatus None 9 ''carol'' ''r1'' accepted
       (demo_db pending, demo_received pending))
     = [Toast ''Request accepted'' (text_of ''The swap request has been accepted.'') False]"
  by (simp add: updateRequestStatus_def mutate_update_no_fault demo_db_def demo_request_def)

text \<open>
  C1, amended. A status update that reaches the backend is answered without an error.
  It sets the status of the request of the given id when the acting user is its
  requester or its recipient, whatever the status was, and stamps the row; every other
  row, and every table when the acting user is no party to the request, stays as it
  was. The page offers Accept and Decline on a received request that is pending, and on
  no other.
\<close>

theorem status_update_policy:
  "toasts_of (updateRequestStatus None now uid rid st (d, s))
     = [Toast (''Request '' @ status_text st)
              (text_of (''The swap request has been '' @ status_text st @ ''.'')) False]
   \<and> length (swap_requests (tables_of (updateRequestStatus None now uid rid st (d, s))))
       = length (swap_requests d)
   \<and> (\<forall>i < length (swap_requests d).
        swap_requests (tables_of (updateRequestStatus None now uid rid st (d, s))) ! i
          = (if sr_id (swap_requests d ! i) = rid
                \<and> (uid = sr_requester_id (swap_requests d ! i)
                     \<or> uid = sr_recipient_id (swap_requests d ! i))
             then (swap_requests d ! i)\<lparr>sr_status := st, sr_updated_at := now\<rparr>
             else swap_requests d ! i))
   \<and> ((\<forall>r \<in> set (swap_requests d).
          sr_id r = rid \<longrightarrow> uid \<noteq> sr_requester_id r \<and> uid \<noteq> sr_recipient_id r)
        \<longrightarrow> tables_of (updateRequestStatus None now uid rid st (d, s)) = d)
   \<and> (offers_accept_decline typ v \<longleftrightarrow> typ = received \<and> rq_status v = pending)"
proof -
  have "map (\<lambda>r. if sr_id r = rid \<and> (uid = sr_requester_id r \<or> uid = sr_recipient_id r)
                  then r\<lparr>sr_status := st, sr_updated_at := now\<rparr> else r) (swap_requests d)
        = swap_requests d"
    if "\<forall>r \<in> set (swap_requests d).
          sr_id r = rid \<longrightarrow> uid \<noteq> sr_requester_id r \<and> uid \<noteq> sr_recipient_id r"
    using that by (intro map_idI) auto
  then show ?thesis
    by (simp add: updateRequestStatus_def mutate_update_no_fault offers_accept_decline_def)
qed

theorem status_update_policy_witness:
  "map sr_status (swap_requests (tables_of (updateRequestStatus None 9 ''bob'' ''r1'' rejected
       (demo_db accepted, demo_sent accepted)))) = [rejected]
   \<and> tables_of (updateRequestStatus None 9 ''carol'' ''r1'' rejected
       (demo_db accepted, demo_sent accepted)) = demo_db accepted
   \<and> \<not> offers_accept_decline received (demo_view ''r1'' accepted)"
proof -
  let ?bob = "updateRequestStatus None 9 ''bob'' ''r1'' rejected (demo_db accepted, demo_sent accepted)"
  let ?carol = "updateRequestStatus None 9 ''carol'' ''r1'' rejected (demo_db accepted, demo_sent accepted)"
  have "swap_requests (tables_of ?bob) ! 0
        = (demo_request accepted)\<lparr>sr_status := rejected, sr_updated_at := 9\<rparr>"
    and "length (swap_requests (tables_of ?bob)) = 1"
    using status_update_policy [of 9 "''bob''" "''r1''" rejected "demo_db accepted"
        "demo_sent accepted"]
    by (simp_all add: demo_db_def demo_request_def)
  then have "map sr_status (swap_requests (tables_of ?bob)) = [rejected]"
    by (cases "swap_requests (tables_of ?bob)") simp_all
  moreover have "tables_of ?carol = demo_db accepted"
    using status_update_policy [of 9 "''carol''" "''r1''" rejected "demo_db accepted"
        "demo_sent accepted"]
    by (simp add: demo_db_def demo_request_def)
  moreover have "\<not> offers_accept_decline received (demo_view ''r1'' accepted)"
    using status_update_policy [of 9 "''carol''" "''r1''" rejected "demo_db accepted"
        "demo_sent accepted" received "demo_view ''r1'' accepted"]
    by (simp add: demo_view_def)
  ultimately show ?thesis by simp
qed

text \<open>
  C2, as stated, fails. Bob deletes his request after Alice has accepted it: the stored
  request stays in place, but no error comes back; the page reports the request deleted
  and drops it from the list of sent requests. Alice, the recipient, deletes the pending
  request: it stays in place as well, and the page reports it deleted.
\<close>

theorem delete_silent_counterexample:
  "swap_requests (tables_of (deleteRequest None ''bob'' ''r1''
       (demo_db accepted, demo_sent accepted))) = [demo_request accepted]
   \<and> toasts_of (deleteRequest None ''bob'' ''r1'' (demo_db accepted, demo_sent accepted))
     = [Toast ''Request deleted'' (text_of ''The swap request has been deleted.'') False]
   \<and> sentRequests (demo_sent accepted) = [demo_view ''r1'' accepted]
   \<and> sentRequests (page_of (deleteRequest None ''bob'' ''r1''
       (demo_db accepted, demo_sent accepted))) = []
   \<and> swap_requests (tables_of (deleteRequest None ''alice'' ''r1''
       (demo_db pending, demo_received pending))) = [demo_request pending]
   \<and> toasts_of (deleteRequest None ''alice'' ''r1'' (demo_db pending, demo_received pending))
     = [Toast ''Request deleted'' (text_of ''The swap request has been deleted.'') False]"
  by code_simp

text \<open>
  C2, amended. A stored request leaves the table through \<open>deleteRequest\<close> only when the
  acting user is its requester and its status is pending, and then it does leave when the
  call reaches the backend. A delete by anyone else, or of a request that is accepted or
  rejected, removes nothing: the request stays in place, and when no request of that id
  may be deleted by the acting user every table is as it was. The backend answers every
  delete that reaches it without an error, also one that removes nothing: the page then
  reports the request deleted and drops the entry of that id from its list of sent
  requests. The page offers Delete on a sent request that is pending, and on no other.
\<close>

theorem delete_policy:
  assumes r: "r \<in> set (swap_requests d)" and rid: "sr_id r = rid"
  shows "(r \<notin> set (swap_requests (tables_of (deleteRequest flt uid rid (d, s))))
            \<longrightarrow> uid = sr_requester_id r \<and> sr_status r = pending)
     \<and> (uid \<noteq> sr_requester_id r \<or> sr_status r \<noteq> pending
            \<longrightarrow> r \<in> set (swap_requests (tables_of (deleteRequest flt uid rid (d, s)))))
     \<and> (flt = None \<and> uid = sr_requester_id r \<and> sr_status r = pending
            \<longrightarrow> r \<notin> set (swap_requests (tables_of (deleteRequest flt uid rid (d, s)))))
     \<and> ((\<forall>q \<in> set (swap_requests d).
            sr_id q = rid \<longrightarrow> uid \<noteq> sr_requester_id q \<or> sr_status q \<noteq> pending)
            \<longrightarrow> tables_of (deleteRequest flt uid rid (d, s)) = d)
     \<and> (flt = None
            \<longrightarrow> toasts_of (deleteRequest flt uid rid (d, s))
                  = [Toast ''Request deleted'' (text_of ''The swap request has been deleted.'')
                       False]
              \<and> page_of (deleteRequest flt uid rid (d, s))
                  = s\<lparr>sentRequests := filter (\<lambda>req. rq_id req \<noteq> rid) (sentRequests s)\<rparr>)
     \<and> (offers_delete typ v \<longleftrightarrow> typ = sent \<and> rq_status v = pending)"
proof -
  have same: "snd (mutate flt (delete_swap_request uid rid) d) = d"
    if no: "\<forall>q \<in> set (swap_requests d).
            sr_id q = rid \<longrightarrow> uid \<noteq> sr_requester_id q \<or> sr_status q \<noteq> pending"
  proof -
    let ?gone = "\<lambda>r. sr_id r = rid \<and> swap_requests_select_policy uid r
                        \<and> swap_requests_delete_policy uid r"
    from no have 1: "filter ?gone (swap_requests d) = []"
      by (auto simp add: filter_empty_conv swap_requests_delete_policy_def)
    from no have 2: "filter (\<lambda>r. \<not> ?gone r) (swap_requests d) = swap_requests d"
      by (intro filter_True) (auto simp add: swap_requests_delete_policy_def)
    have "delete_swap_request uid rid d = Inr d"
      unfolding delete_swap_request_def Let_def 1 2 by simp
    then show ?thesis
      by (cases flt) (simp_all add: mutate_def)
  qed
  let ?R = "deleteRequest flt uid rid (d, s)"
  have 1: "r \<notin> set (swap_requests (tables_of ?R))
            \<longrightarrow> uid = sr_requester_id r \<and> sr_status r = pending"
    using r rid by (auto simp add: tables_deleteRequest mutate_delete split: option.splits)
  have 2: "uid \<noteq> sr_requester_id r \<or> sr_status r \<noteq> pending
            \<longrightarrow> r \<in> set (swap_requests (tables_of ?R))"
    using r rid by (auto simp add: tables_deleteRequest mutate_delete split: option.splits)
  have 3: "flt = None \<and> uid = sr_requester_id r \<and> sr_status r = pending
            \<longrightarrow> r \<notin> set (swap_requests (tables_of ?R))"
    using r rid by (auto simp add: tables_deleteRequest mutate_delete split: option.splits)
  have 4: "(\<forall>q \<in> set (swap_requests d).
            sr_id q = rid \<longrightarrow> uid \<noteq> sr_requester_id q \<or> sr_status q \<noteq> pending)
            \<longrightarrow> tables_of ?R = d"
    using same by (simp add: tables_deleteRequest)
  have 5: "flt = None
            \<longrightarrow> toasts_of ?R
                  = [Toast ''Request deleted'' (text_of ''The swap request has been deleted.'')
                       False]
              \<and> page_of ?R
                  = s\<lparr>sentRequests := filter (\<lambda>req. rq_id req \<noteq> rid) (sentRequests s)\<rparr>"
  proof
    assume "flt = None"
    moreover obtain d' where "delete_swap_request uid rid d = Inr d'"
      by (simp add: delete_swap_request_def Let_def)
    ultimately have "mutate flt (delete_swap_request uid rid) d = (None, d')"
      by (simp add: mutate_def)
    then show "toasts_of ?R
                  = [Toast ''Request deleted'' (text_of ''The swap request has been deleted.'')
                       False]
              \<and> page_of ?R
                  = s\<lparr>sentRequests := filter (\<lambda>req. rq_id req \<noteq> rid) (sentRequests s)\<rparr>"
      by (simp add: deleteRequest_def)
  qed
  have 6: "offers_delete typ v \<longleftrightarrow> typ = sent \<and> rq_status v = pending"
    by (simp add: offers_delete_def)
  from 1 2 3 4 5 6 show ?thesis
    by (intro conjI)
qed

theorem delete_policy_witness:
  "tables_of (deleteRequest None ''alice'' ''r1'' (demo_db pending, demo_received pending))
     = demo_db pending
   \<and> tables_of (deleteRequest None ''bob'' ''r1'' (demo_db accepted, demo_sent accepted))
     = demo_db accepted
   \<and> page_of (deleteRequest None ''bob'' ''r1'' (demo_db accepted, demo_sent accepted))
     = (demo_sent accepted)\<lparr>sentRequests := []\<rparr>
   \<and> demo_request pending \<notin> set (swap_requests (tables_of (deleteRequest None ''bob'' ''r1''
       (demo_db pending, demo_sent pending))))
   \<and> offers_delete sent (demo_view ''r1'' pending)"
proof -
  have r: "demo_request st \<in> set (swap_requests (demo_db st))" for st
    by (simp add: demo_db_def)
  have rid: "sr_id (demo_request st) = ''r1''" for st
    by (simp add: demo_request_def)
  have "tables_of (deleteRequest None ''alice'' ''r1'' (demo_db pending, demo_received pending))
          = demo_db pending"
    using delete_policy [OF r rid, of pending None "''alice''"]
    by (simp add: demo_db_def demo_request_def)
  moreover have "tables_of (deleteRequest None ''bob'' ''r1'' (demo_db accepted, demo_sent accepted))
          = demo_db accepted"
    using delete_policy [OF r rid, of accepted None "''bob''"]
    by (simp add: demo_db_def demo_request_def)
  moreover have "page_of (deleteRequest None ''bob'' ''r1'' (demo_db accepted, demo_sent accepted))
     = (demo_sent accepted)\<lparr>sentRequests := []\<rparr>"
    using delete_policy [OF r rid, of accepted None "''bob''" "demo_sent accepted"]
    by (simp add: demo_sent_def demo_view_def)
  moreover have "demo_request pending \<notin> set (swap_requests (tables_of (deleteRequest None ''bob'' ''r1''
       (demo_db pending, demo_sent pending))))"
    using delete_policy [OF r rid, of pending None "''bob''"]
    by (simp add: demo_request_def)
  moreover have "offers_delete sent (demo_view ''r1'' pending)"
    using delete_policy [OF r rid, of pending None "''bob''" _ sent "demo_view ''r1'' pending"]
    by (simp add: demo_view_def)
  ultimately show ?thesis by simp
qed

section \<open>Properties of the search\<close>

lemma text_of_percent: "text_of ''%'' = [37]"
  by (simp add: text_of_def)

lemma stars_plain: "\<forall>c \<in> set t. \<not> wildcard c \<Longrightarrow> stars t = t"
  by (induction t) (auto simp: stars_def wildcard_def)

lemma case_mapping_ascii: "case_mapping ascii_lc"
  by (auto simp add: case_mapping_def ascii_lc_def wildcard_def)

lemma case_mapping_percent: "case_mapping lc \<Longrightarrow> lc 37 = 37"
  by (simp add: case_mapping_def wildcard_def)

lemma case_mapping_plain:
  "case_mapping lc \<Longrightarrow> \<forall>c \<in> set t. \<not> wildcard c \<Longrightarrow> \<forall>c \<in> set (map lc t). \<not> wildcard c"
  by (auto simp add: case_mapping_def)

lemma like_tokens_literals:
  "\<forall>c \<in> set t. \<not> wildcard c \<Longrightarrow> like_tokens (t @ [37]) = Some (map Literal t @ [AnyString])"
proof (induction t rule: like_tokens.induct)
  case 1 then show ?case by simp
next
  case (2 c) then show ?case by (simp add: wildcard_def)
next
  case (3 c e es) then show ?case by (simp add: wildcard_def)
qed

lemma like_match_any: "like_match [AnyString] s"
  by (induction s) auto

lemma like_match_prefix: "like_match (map Literal t @ [AnyString]) s \<longleftrightarrow> prefix t s"
proof (induction t arbitrary: s)
  case Nil then show ?case by (simp add: like_match_any)
next
  case (Cons a t) then show ?case by (cases s) auto
qed

lemma like_match_sublist:
  "like_match (AnyString # map Literal t @ [AnyString]) s \<longleftrightarrow> sublist t s"
proof (induction s)
  case Nil
  then show ?case using like_match_prefix [of t "[]"] by (cases t) auto
next
  case (Cons c s)
  then show ?case using like_match_prefix [of t "c # s"]
    by (cases t) (auto simp: sublist_Cons_right)
qed

lemma ilike_plain:
  assumes plain: "\<forall>c \<in> set t. \<not> wildcard c" and lc: "case_mapping lc"
  shows "ilike lc (text_of ''%'' @ t @ text_of ''%'') name = Inr (sublist (map lc t) (map lc name))"
proof -
  from plain have "stars t = t"
    by (rule stars_plain)
  then have 1: "map lc (stars (text_of ''%'' @ t @ text_of ''%'')) = 37 # map lc t @ [37]"
    by (simp add: stars_def text_of_percent case_mapping_percent [OF lc])
  have 2: "like_tokens (37 # map lc t @ [37])
      = Some (AnyString # map Literal (map lc t) @ [AnyString])"
    using like_tokens_literals [OF case_mapping_plain [OF lc plain]]
    by (cases "map lc t @ [37]") simp_all
  show ?thesis
    by (simp only: ilike_def 1 2 option.case like_match_sublist)
qed

lemma query_None [simp]: "query None r = r"
  by (simp add: query_def)

lemma query_Some [simp]: "query (Some e) r = Inl e"
  by (simp add: query_def)

lemma searchUsers_users_cases:
  obtains (same) "users (fst (searchUsers lc net uid d s)) = users s"
  | (none) "users (fst (searchUsers lc net uid d s)) = []"
  | (assembled) userIds allUserSkills where
      "users (fst (searchUsers lc net uid d s))
         = assembleUsers (public_rows uid userIds d) allUserSkills"
proof (cases "trim (searchTerm s) = []")
  case True
  then have "users (fst (searchUsers lc net uid d s)) = users s"
    by (simp add: searchUsers_def)
  then show ?thesis by (rule same)
next
  case False
  have pub: "query flt (select_public_profiles uid ids d)
      = (case flt of Some e \<Rightarrow> Inl e | None \<Rightarrow> Inr (public_rows uid ids d))" for flt ids
    by (cases flt) (simp_all add: select_public_profiles_def public_rows_def)
  have "users (fst (searchUsers lc net uid d s)) = users s
      \<or> users (fst (searchUsers lc net uid d s)) = []
      \<or> (\<exists>userIds allUserSkills. users (fst (searchUsers lc net uid d s))
         = assembleUsers (public_rows uid userIds d) allUserSkills)"
    unfolding searchUsers_def pub
    by (auto simp add: search_failed_def Let_def split: sum.splits option.splits)
  then show ?thesis
    using same none assembled by blast
qed

lemma public_rows_sound:
  "p \<in> set (public_rows uid userIds d) \<Longrightarrow>
     p \<in> set (profiles d) \<and> p_is_public p = Some True \<and> p_user_id p \<noteq> uid"
  by (simp add: public_rows_def)

lemma addOfferedSkill_cases:
  obtains (skip) "addOfferedSkill m x = m"
  | (push) up sk where "map_of m (fst x) = Some up" "snd x = Some sk"
      "ref_id sk \<notin> set (map ref_id (offeredSkills up))"
      "addOfferedSkill m x =
         map (\<lambda>kv. if fst kv = fst x
                    then (fst kv, (snd kv)\<lparr>offeredSkills := offeredSkills (snd kv) @ [sk]\<rparr>)
                    else kv) m"
proof (cases "map_of m (fst x)")
  case None
  then have "addOfferedSkill m x = m" by (simp add: addOfferedSkill_def)
  then show ?thesis by (rule skip)
next
  case (Some up)
  note up = this
  show ?thesis
  proof (cases "snd x")
    case None
    with up have "addOfferedSkill m x = m" by (simp add: addOfferedSkill_def)
    then show ?thesis by (rule skip)
  next
    case (Some sk)
    show ?thesis
    proof (cases "find (\<lambda>s. ref_id s = ref_id sk) (offeredSkills up) = None")
      case False
      with up Some have "addOfferedSkill m x = m" by (simp add: addOfferedSkill_def)
      then show ?thesis by (rule skip)
    next
      case True
      then have 1: "ref_id sk \<notin> set (map ref_id (offeredSkills up))"
        by (auto simp add: find_None_iff)
      have 2: "addOfferedSkill m x =
         map (\<lambda>kv. if fst kv = fst x
                    then (fst kv, (snd kv)\<lparr>offeredSkills := offeredSkills (snd kv) @ [sk]\<rparr>)
                    else kv) m"
        using up Some True by (simp add: addOfferedSkill_def case_prod_beta)
      show ?thesis by (rule push [OF up Some 1 2])
    qed
  qed
qed

lemma from_rows_addProfile:
  "from_rows rows m \<Longrightarrow> p \<in> set rows \<Longrightarrow> from_rows rows (addProfile m p)"
  by (auto simp add: from_rows_def addProfile_def)

lemma from_rows_addOfferedSkill:
  assumes "from_rows rows m"
  shows "from_rows rows (addOfferedSkill m x)"
proof (cases rule: addOfferedSkill_cases [of m x])
  case skip
  with assms show ?thesis by simp
next
  case (push up sk)
  from assms show ?thesis
    unfolding push(4) from_rows_def by fastforce
qed

lemma from_rows_profiles:
  "from_rows rows m \<Longrightarrow> set ps \<subseteq> set rows \<Longrightarrow> from_rows rows (foldl addProfile m ps)"
  by (induction ps arbitrary: m) (simp_all add: from_rows_addProfile)

lemma from_rows_skills:
  "from_rows rows m \<Longrightarrow> from_rows rows (foldl addOfferedSkill m xs)"
  by (induction xs arbitrary: m) (simp_all add: from_rows_addOfferedSkill)

lemma assembleUsers_from_rows:
  assumes "u \<in> set (assembleUsers rows xs)"
  shows "\<exists>p \<in> set rows. up_id u = p_id p \<and> up_user_id u = p_user_id p"
proof -
  have "from_rows rows (foldl addOfferedSkill (foldl addProfile [] rows) xs)"
    by (intro from_rows_skills from_rows_profiles) (simp_all add: from_rows_def)
  with assms show ?thesis
    by (auto simp add: assembleUsers_def from_rows_def)
qed

lemma skills_once_addProfile: "skills_once m \<Longrightarrow> skills_once (addProfile m p)"
  by (auto simp add: skills_once_def addProfile_def map_of_eq_None_iff)

lemma skills_once_addOfferedSkill:
  assumes "skills_once m"
  shows "skills_once (addOfferedSkill m x)"
proof (cases rule: addOfferedSkill_cases [of m x])
  case skip
  with assms show ?thesis by simp
next
  case (push up sk)
  let ?f = "\<lambda>kv. if fst kv = fst x
                    then (fst kv, (snd kv)\<lparr>offeredSkills := offeredSkills (snd kv) @ [sk]\<rparr>)
                    else kv"
  have keys: "map fst (map ?f m) = map fst m"
    by (induction m) auto
  have "distinct (map ref_id (offeredSkills (snd (?f kv))))" if kv: "kv \<in> set m" for kv
  proof (cases "fst kv = fst x")
    case False
    with assms kv show ?thesis by (simp add: skills_once_def)
  next
    case True
    from kv have "(fst kv, snd kv) \<in> set m" by simp
    with assms True have "map_of m (fst x) = Some (snd kv)"
      by (simp add: skills_once_def)
    with push(1) have "snd kv = up" by simp
    with push(3) assms kv True show ?thesis
      by (auto simp add: skills_once_def)
  qed
  then have "\<forall>kv' \<in> set (map ?f m). distinct (map ref_id (offeredSkills (snd kv')))"
    unfolding set_map by (intro ballI) (erule imageE, blast)
  moreover from assms have "distinct (map fst m)"
    by (simp add: skills_once_def)
  ultimately show ?thesis
    unfolding push(4) skills_once_def keys by blast
qed

lemma skills_once_foldl_profiles: "skills_once m \<Longrightarrow> skills_once (foldl addProfile m ps)"
  by (induction ps arbitrary: m) (simp_all add: skills_once_addProfile)

lemma skills_once_foldl_skills: "skills_once m \<Longrightarrow> skills_once (foldl addOfferedSkill m xs)"
  by (induction xs arbitrary: m) (simp_all add: skills_once_addOfferedSkill)

lemma assembleUsers_distinct:
  assumes "u \<in> set (assembleUsers rows xs)"
  shows "distinct (map ref_id (offeredSkills u))"
proof -
  have "skills_once (foldl addOfferedSkill (foldl addProfile [] rows) xs)"
    by (intro skills_once_foldl_skills skills_once_foldl_profiles) (simp add: skills_once_def)
  with assms show ?thesis
    by (auto simp add: assembleUsers_def skills_once_def)
qed

lemma demo_search_guit:
  "searchUsers ascii_lc no_fault ''alice'' (demo_db pending) (demo_search ''guit'' [])
     = (demo_search ''guit'' [demo_bob], [])"
  by code_simp

lemma demo_assemble:
  "assembleUsers [demo_profile ''p2'' ''bob'' (Some True)]
     [(''bob'', Some \<lparr>ref_id = ''s1'', ref_name = text_of ''Guitar''\<rparr>),
      (''bob'', Some \<lparr>ref_id = ''s2'', ref_name = text_of ''Spanish''\<rparr>),
      (''bob'', Some \<lparr>ref_id = ''s1'', ref_name = text_of ''Guitar''\<rparr>),
      (''carol'', Some \<lparr>ref_id = ''s1'', ref_name = text_of ''Guitar''\<rparr>)] = [demo_bob]"
  by code_simp

lemma like_tokens_percent: "like_tokens (xs @ [37]) \<noteq> None"
  by (induction xs rule: like_tokens.induct) auto

lemma pattern_tokens:
  assumes "lc 37 = 37"
  shows "\<exists>ts. like_tokens (map lc (stars (text_of ''%'' @ t @ text_of ''%''))) = Some ts"
proof -
  have "map lc (stars (text_of ''%'' @ t @ text_of ''%'')) = (37 # map lc (stars t)) @ [37]"
    using assms by (simp add: stars_def text_of_percent)
  then show ?thesis
    using like_tokens_percent [of "37 # map lc (stars t)"] by auto
qed

lemma select_skill_ids_ilike_pattern:
  assumes "lc 37 = 37"
  shows "select_skill_ids_ilike lc (text_of ''%'' @ t @ text_of ''%'') d
     = Inr (matching_ids lc t d)"
proof -
  from pattern_tokens [where lc = lc and t = t, OF assms] obtain ts
    where "like_tokens (map lc (stars (text_of ''%'' @ t @ text_of ''%''))) = Some ts" ..
  then show ?thesis
    unfolding select_skill_ids_ilike_def ilike_def matching_ids_def by simp
qed

lemma searchUsers_blank: "trim (searchTerm s) = [] \<Longrightarrow> searchUsers lc net uid d s = (s, [])"
  by (simp add: searchUsers_def)

lemma searchUsers_answered:
  assumes "trim (searchTerm s) \<noteq> []" and "\<forall>k. net k = None" and lc: "lc 37 = 37"
  shows "searchUsers lc net uid d s =
     (if matching_ids lc (searchTerm s) d = [] \<or> offering_ids lc (searchTerm s) d = []
      then (s\<lparr>users := [], search_loading := False\<rparr>, [])
      else (s\<lparr>users := assembleUsers (public_rows uid (offering_ids lc (searchTerm s) d) d)
                (map (\<lambda>us. (us_user_id us, embedded_skill d (us_skill_id us)))
                   (filter (\<lambda>us. us_skill_type us = offered
                       \<and> us_user_id us \<in> set (offering_ids lc (searchTerm s) d)) (user_skills d))),
             search_loading := False\<rparr>, []))"
proof -
  have 0: "query (net 0)
      (select_skill_ids_ilike lc (text_of ''%'' @ searchTerm s @ text_of ''%'') d)
      = Inr (matching_ids lc (searchTerm s) d)"
    unfolding select_skill_ids_ilike_pattern [where lc = lc, OF lc] using assms(2) by simp
  have 1: "query (net 1) (select_offering_user_ids (matching_ids lc (searchTerm s) d) d)
      = Inr (map us_user_id
       (filter (\<lambda>us. us_skill_type us = offered
            \<and> us_skill_id us \<in> set (matching_ids lc (searchTerm s) d))
          (user_skills d)))"
    using assms(2) by (simp add: select_offering_user_ids_def)
  have 2: "query (net 2) (select_public_profiles uid ids d) = Inr (public_rows uid ids d)" for ids
    using assms(2) by (simp add: select_public_profiles_def public_rows_def)
  have 3: "query (net 3) (select_offered_skills ids d)
      = Inr (map (\<lambda>us. (us_user_id us, embedded_skill d (us_skill_id us)))
                   (filter (\<lambda>us. us_skill_type us = offered \<and> us_user_id us \<in> set ids)
                      (user_skills d)))" for ids
    using assms(2) by (simp add: select_offered_skills_def)
  show ?thesis
    unfolding searchUsers_def 0 using assms(1)
    by (simp add: 1 2 3 Let_def offering_ids_def del: One_nat_def)
qed

lemma searchUsers_no_skill:
  assumes "trim (searchTerm s) \<noteq> []" and "net 0 = None" and lc: "lc 37 = 37"
    and "matching_ids lc (searchTerm s) d = []"
  shows "users (fst (searchUsers lc net uid d s)) = []"
proof -
  have 0: "query (net 0)
      (select_skill_ids_ilike lc (text_of ''%'' @ searchTerm s @ text_of ''%'') d) = Inr []"
    unfolding select_skill_ids_ilike_pattern [where lc = lc, OF lc] using assms(2,4) by simp
  show ?thesis
    unfolding searchUsers_def 0 using assms(1) by simp
qed

lemma searchUsers_no_offer:
  assumes "trim (searchTerm s) \<noteq> []" and "net 0 = None" and "net 1 = None" and lc: "lc 37 = 37"
    and no: "\<forall>us \<in> set (user_skills d). us_skill_type us = offered \<longrightarrow>
          us_skill_id us \<notin> set (matching_ids lc (searchTerm s) d)"
  shows "users (fst (searchUsers lc net uid d s)) = []"
proof -
  let ?ids = "matching_ids lc (searchTerm s) d"
  have 0: "query (net 0)
      (select_skill_ids_ilike lc (text_of ''%'' @ searchTerm s @ text_of ''%'') d) = Inr ?ids"
    unfolding select_skill_ids_ilike_pattern [where lc = lc, OF lc] using assms(2) by simp
  from no have "filter (\<lambda>us. us_skill_type us = offered \<and> us_skill_id us \<in> set ?ids)
      (user_skills d) = []"
    by (auto simp add: filter_empty_conv)
  with assms(3) have 1: "query (net 1) (select_offering_user_ids ?ids d) = Inr []"
    by (simp add: select_offering_user_ids_def)
  show ?thesis
    unfolding searchUsers_def 0 using assms(1)
    by (simp add: 1 unique_def del: One_nat_def)
qed

lemma matching_ids_plain:
  assumes "\<forall>c \<in> set t. \<not> wildcard c" and "case_mapping lc"
  shows "matching_ids lc t d
     = map sk_id (filter (\<lambda>sk. sublist (map lc t) (map lc (sk_name sk))) (skills d))"
  unfolding matching_ids_def by (simp add: ilike_plain [OF assms])

text \<open>
  C4. Whenever \<open>searchUsers\<close> replaces the displayed result set, every record of the new
  set belongs to a user other than the searching one and is built from a stored profile
  whose public flag is true. This is so for every term and every state of the tables;
  a search with a non-blank term whose queries are all answered does replace the set
  (the case mapping of the database leaving the character \<open>%\<close> as it is), and a search
  that does not (a blank term, a failed query) leaves the set displayed before.
\<close>

theorem search_excludes_self_and_private:
  "(trim (searchTerm s) \<noteq> [] \<and> (\<forall>k. net k = None) \<and> lc 37 = 37 \<longrightarrow>
      (\<forall>u \<in> set (users (fst (searchUsers lc net uid d s))).
         up_user_id u \<noteq> uid
         \<and> (\<exists>p \<in> set (profiles d).
               p_id p = up_id u \<and> p_user_id p = up_user_id u \<and> p_is_public p = Some True)))
   \<and> (users (fst (searchUsers lc net uid d s)) = users s
      \<or> (\<forall>u \<in> set (users (fst (searchUsers lc net uid d s))).
         up_user_id u \<noteq> uid
         \<and> (\<exists>p \<in> set (profiles d).
               p_id p = up_id u \<and> p_user_id p = up_user_id u \<and> p_is_public p = Some True)))"
proof -
  let ?us = "users (fst (searchUsers lc net uid d s))"
  let ?ok = "\<forall>u \<in> set ?us. up_user_id u \<noteq> uid
         \<and> (\<exists>p \<in> set (profiles d).
               p_id p = up_id u \<and> p_user_id p = up_user_id u \<and> p_is_public p = Some True)"
  have built: "\<forall>u \<in> set (assembleUsers (public_rows uid ids d) xs). up_user_id u \<noteq> uid
         \<and> (\<exists>p \<in> set (profiles d).
               p_id p = up_id u \<and> p_user_id p = up_user_id u \<and> p_is_public p = Some True)"
    for ids xs
  proof
    fix u assume "u \<in> set (assembleUsers (public_rows uid ids d) xs)"
    then obtain p where "p \<in> set (public_rows uid ids d)"
      and "up_id u = p_id p" "up_user_id u = p_user_id p"
      using assembleUsers_from_rows by blast
    then show "up_user_id u \<noteq> uid
         \<and> (\<exists>p \<in> set (profiles d).
               p_id p = up_id u \<and> p_user_id p = up_user_id u \<and> p_is_public p = Some True)"
      using public_rows_sound [of p uid ids d] by auto
  qed
  have general: "?us = users s \<or> ?ok"
  proof (cases rule: searchUsers_users_cases [of lc net uid d s])
    case same
    then show ?thesis by simp
  next
    case none
    then show ?thesis by simp
  next
    case (assembled ids xs)
    then show ?thesis using built by simp
  qed
  have "?ok" if "trim (searchTerm s) \<noteq> []" and net: "\<forall>k. net k = None" and lc: "lc 37 = 37"
    using built by (simp add: searchUsers_answered [where lc = lc, OF that])
  with general show ?thesis by blast
qed

theorem search_excludes_self_and_private_witness:
  "trim (searchTerm (demo_search ''guit'' [])) \<noteq> []
   \<and> ascii_lc 37 = 37
   \<and> users (fst (searchUsers ascii_lc no_fault ''alice'' (demo_db pending)
        (demo_search ''guit'' []))) = [demo_bob]
   \<and> up_user_id demo_bob \<noteq> ''alice''
   \<and> (\<exists>p \<in> set (profiles (demo_db pending)).
         p_id p = up_id demo_bob \<and> p_user_id p = up_user_id demo_bob
         \<and> p_is_public p = Some True)"
proof -
  have nonblank: "trim (searchTerm (demo_search ''guit'' [])) \<noteq> []"
    by code_simp
  have net: "\<forall>k. no_fault k = None"
    by (simp add: no_fault_def)
  have lc: "ascii_lc 37 = 37"
    by (simp add: ascii_lc_def)
  have run: "users (fst (searchUsers ascii_lc no_fault ''alice'' (demo_db pending)
      (demo_search ''guit'' []))) = [demo_bob]"
    unfolding demo_search_guit by (simp add: demo_search_def)
  from search_excludes_self_and_private
    [where s = "demo_search ''guit'' []" and net = no_fault and uid = "''alice''"
       and d = "demo_db pending" and lc = ascii_lc] nonblank net lc
  show ?thesis
    unfolding run by simp
qed

text \<open>
  C5, as stated, fails. A search with a blank term leaves the list that is displayed,
  here Bob's entry, in place: the result set is not empty. And a search for the term
  \<open>_\<close>, which no skill name contains, lists Bob: the handler puts the term into the
  pattern as it is, and the database reads \<open>_\<close> there as any one character.
\<close>

theorem search_empty_counterexample:
  "users (fst (searchUsers ascii_lc no_fault ''alice'' (demo_db pending)
      (demo_search '' '' [demo_bob]))) = [demo_bob]
   \<and> \<not> sublist (map ascii_lc (text_of ''_'')) (map ascii_lc (text_of ''Guitar''))
   \<and> \<not> sublist (map ascii_lc (text_of ''_'')) (map ascii_lc (text_of ''Spanish''))
   \<and> map sk_name (skills (demo_db pending)) = [text_of ''Guitar'', text_of ''Spanish'']
   \<and> users (fst (searchUsers ascii_lc no_fault ''alice'' (demo_db pending)
      (demo_search ''_'' []))) = [demo_bob]"
  by code_simp

text \<open>
  C5, amended. A search whose term is empty or consists of white space only does
  nothing: state and displayed result set stay as they were. A search with any other
  term that has none of the characters \<open>%\<close>, \<open>_\<close>, backslash and \<open>*\<close> displays the
  empty result set when its first query is answered and no skill name contains the term
  as a substring, letter case ignored, and when its first two queries are answered and
  no offered user skill refers to a skill whose name contains the term so. Letter case
  is ignored by the case mapping of the database, which is any mapping of characters
  that maps each of the four characters to itself and no other character to one of them.
\<close>

theorem search_empty_result:
  "(trim (searchTerm s) = [] \<longrightarrow> searchUsers lc net uid d s = (s, []))
   \<and> (trim (searchTerm s) \<noteq> [] \<and> (\<forall>c \<in> set (searchTerm s). \<not> wildcard c)
        \<and> case_mapping lc \<and> net 0 = None
        \<and> (\<forall>sk \<in> set (skills d). \<not> sublist (map lc (searchTerm s)) (map lc (sk_name sk)))
      \<longrightarrow> users (fst (searchUsers lc net uid d s)) = [])
   \<and> (trim (searchTerm s) \<noteq> [] \<and> (\<forall>c \<in> set (searchTerm s). \<not> wildcard c)
        \<and> case_mapping lc \<and> net 0 = None \<and> net 1 = None
        \<and> (\<forall>us \<in> set (user_skills d). us_skill_type us = offered \<longrightarrow>
              (\<forall>sk \<in> set (skills d). sk_id sk = us_skill_id us \<longrightarrow>
                 \<not> sublist (map lc (searchTerm s)) (map lc (sk_name sk))))
      \<longrightarrow> users (fst (searchUsers lc net uid d s)) = [])"
proof -
  have 1: "trim (searchTerm s) = [] \<longrightarrow> searchUsers lc net uid d s = (s, [])"
    by (simp add: searchUsers_blank)
  have 2: "users (fst (searchUsers lc net uid d s)) = []"
    if "trim (searchTerm s) \<noteq> []" and plain: "\<forall>c \<in> set (searchTerm s). \<not> wildcard c"
      and lc: "case_mapping lc" and "net 0 = None"
      and no: "\<forall>sk \<in> set (skills d). \<not> sublist (map lc (searchTerm s)) (map lc (sk_name sk))"
  proof -
    from no have "matching_ids lc (searchTerm s) d = []"
      unfolding matching_ids_plain [OF plain lc] by (simp add: filter_empty_conv)
    with that(1,4) case_mapping_percent [OF lc] show ?thesis
      by (rule searchUsers_no_skill [where lc = lc])
  qed
  have 3: "users (fst (searchUsers lc net uid d s)) = []"
    if "trim (searchTerm s) \<noteq> []" and plain: "\<forall>c \<in> set (searchTerm s). \<not> wildcard c"
      and lc: "case_mapping lc" and "net 0 = None" and "net 1 = None"
      and no: "\<forall>us \<in> set (user_skills d). us_skill_type us = offered \<longrightarrow>
              (\<forall>sk \<in> set (skills d). sk_id sk = us_skill_id us \<longrightarrow>
                 \<not> sublist (map lc (searchTerm s)) (map lc (sk_name sk)))"
  proof -
    from no have "\<forall>us \<in> set (user_skills d). us_skill_type us = offered \<longrightarrow>
          us_skill_id us \<notin> set (matching_ids lc (searchTerm s) d)"
      unfolding matching_ids_plain [OF plain lc] by auto
    with that(1,4,5) case_mapping_percent [OF lc] show ?thesis
      by (rule searchUsers_no_offer [where lc = lc])
  qed
  from 1 2 3 show ?thesis by blast
qed

theorem search_empty_result_witness:
  "searchUsers ascii_lc no_fault ''alice'' (demo_db pending) (demo_search '' '' [demo_bob])
     = (demo_search '' '' [demo_bob], [])
   \<and> trim (text_of ''piano'') \<noteq> []
   \<and> case_mapping ascii_lc
   \<and> users (fst (searchUsers ascii_lc no_fault ''alice'' (demo_db pending)
        (demo_search ''piano'' [demo_bob]))) = []
   \<and> users (fst (searchUsers ascii_lc no_fault ''carol''
        ((demo_db pending)\<lparr>user_skills := [demo_user_skill ''k5'' ''bob'' ''s2'' offered]\<rparr>)
        (demo_search ''GUITAR'' [demo_bob]))) = []"
proof -
  let ?d = "demo_db pending"
  let ?d' = "(demo_db pending)\<lparr>user_skills := [demo_user_skill ''k5'' ''bob'' ''s2'' offered]\<rparr>"
  have lc: "case_mapping ascii_lc"
    by (rule case_mapping_ascii)
  have net: "no_fault 0 = None" "no_fault 1 = None"
    by (simp_all add: no_fault_def)
  have blank: "trim (searchTerm (demo_search '' '' [demo_bob])) = []"
    by code_simp
  have piano: "trim (searchTerm (demo_search ''piano'' [demo_bob])) \<noteq> []"
    "\<forall>c \<in> set (searchTerm (demo_search ''piano'' [demo_bob])). \<not> wildcard c"
    "\<forall>sk \<in> set (skills ?d). \<not> sublist (map ascii_lc (searchTerm (demo_search ''piano'' [demo_bob])))
        (map ascii_lc (sk_name sk))"
    by code_simp+
  have guitar: "trim (searchTerm (demo_search ''GUITAR'' [demo_bob])) \<noteq> []"
    "\<forall>c \<in> set (searchTerm (demo_search ''GUITAR'' [demo_bob])). \<not> wildcard c"
    "\<forall>us \<in> set (user_skills ?d'). us_skill_type us = offered \<longrightarrow>
        (\<forall>sk \<in> set (skills ?d'). sk_id sk = us_skill_id us \<longrightarrow>
           \<not> sublist (map ascii_lc (searchTerm (demo_search ''GUITAR'' [demo_bob])))
               (map ascii_lc (sk_name sk)))"
    by code_simp+
  have 0: "trim (text_of ''piano'') \<noteq> []"
    by code_simp
  have 1: "searchUsers ascii_lc no_fault ''alice'' ?d (demo_search '' '' [demo_bob])
     = (demo_search '' '' [demo_bob], [])"
    using search_empty_result [where s = "demo_search '' '' [demo_bob]" and net = no_fault
        and uid = "''alice''" and d = ?d and lc = ascii_lc] blank
    by blast
  have 2: "users (fst (searchUsers ascii_lc no_fault ''alice'' ?d
      (demo_search ''piano'' [demo_bob]))) = []"
    using search_empty_result [where s = "demo_search ''piano'' [demo_bob]" and net = no_fault
        and uid = "''alice''" and d = ?d and lc = ascii_lc] piano lc net
    by blast
  have 3: "users (fst (searchUsers ascii_lc no_fault ''carol'' ?d'
      (demo_search ''GUITAR'' [demo_bob]))) = []"
    using search_empty_result [where s = "demo_search ''GUITAR'' [demo_bob]" and net = no_fault
        and uid = "''carol''" and d = ?d' and lc = ascii_lc] guitar lc net
    by blast
  from 0 1 2 3 lc show ?thesis by (intro conjI)
qed

text \<open>
  C6. The list \<open>offeredSkills\<close> of every record that the search assembles holds no skill
  identifier twice, whatever rows the two last queries return, also when they return a
  skill of a user more than once. Hence whenever \<open>searchUsers\<close> replaces the displayed
  result set, no record of the new set lists a skill identifier twice.
\<close>

theorem offered_skills_distinct:
  "(\<forall>u \<in> set (assembleUsers data allUserSkills). distinct (map ref_id (offeredSkills u)))
   \<and> (users (fst (searchUsers lc net uid d s)) = users s
      \<or> (\<forall>u \<in> set (users (fst (searchUsers lc net uid d s))).
            distinct (map ref_id (offeredSkills u))))"
proof -
  have "users (fst (searchUsers lc net uid d s)) = users s
      \<or> (\<forall>u \<in> set (users (fst (searchUsers lc net uid d s))).
            distinct (map ref_id (offeredSkills u)))"
  proof (cases rule: searchUsers_users_cases [of lc net uid d s])
    case same
    then show ?thesis by simp
  next
    case none
    then show ?thesis by simp
  next
    case (assembled ids xs)
    then show ?thesis by (simp add: assembleUsers_distinct)
  qed
  then show ?thesis
    by (simp add: assembleUsers_distinct)
qed

theorem offered_skills_distinct_witness:
  "assembleUsers [demo_profile ''p2'' ''bob'' (Some True)]
     [(''bob'', Some \<lparr>ref_id = ''s1'', ref_name = text_of ''Guitar''\<rparr>),
      (''bob'', Some \<lparr>ref_id = ''s2'', ref_name = text_of ''Spanish''\<rparr>),
      (''bob'', Some \<lparr>ref_id = ''s1'', ref_name = text_of ''Guitar''\<rparr>),
      (''carol'', Some \<lparr>ref_id = ''s1'', ref_name = text_of ''Guitar''\<rparr>)] = [demo_bob]
   \<and> distinct (map ref_id (offeredSkills demo_bob))
   \<and> users (fst (searchUsers ascii_lc no_fault ''alice'' (demo_db pending)
        (demo_search ''guit'' [])))
       \<noteq> users (demo_search ''guit'' [])"
proof -
  have "distinct (map ref_id (offeredSkills demo_bob))"
    using offered_skills_distinct [where data = "[demo_profile ''p2'' ''bob'' (Some True)]"
     and allUserSkills = "[(''bob'', Some \<lparr>ref_id = ''s1'', ref_name = text_of ''Guitar''\<rparr>),
      (''bob'', Some \<lparr>ref_id = ''s2'', ref_name = text_of ''Spanish''\<rparr>),
      (''bob'', Some \<lparr>ref_id = ''s1'', ref_name = text_of ''Guitar''\<rparr>),
      (''carol'', Some \<lparr>ref_id = ''s1'', ref_name = text_of ''Guitar''\<rparr>)]"]
    unfolding demo_assemble by simp
  moreover have "users (fst (searchUsers ascii_lc no_fault ''alice'' (demo_db pending)
      (demo_search ''guit'' []))) = [demo_bob]"
    unfolding demo_search_guit by (simp add: demo_search_def)
  moreover have "users (demo_search ''guit'' []) = []"
    by (simp add: demo_search_def)
  ultimately show ?thesis
    by (simp add: demo_assemble)
qed

section \<open>Properties of the feedback page\<close>

lemma select_accepted_swaps_eq: "select_accepted_swaps uid d = Inr (accepted_for uid d)"
proof -
  have "(\<lambda>r. swap_requests_select_policy uid r \<and> sr_status r = accepted
                          \<and> (sr_requester_id r = uid \<or> sr_recipient_id r = uid))
      = (\<lambda>r. sr_status r = accepted \<and> (sr_requester_id r = uid \<or> sr_recipient_id r = uid))"
    by (auto simp add: swap_requests_select_policy_def)
  then show ?thesis
    by (simp add: select_accepted_swaps_def accepted_for_def)
qed

lemma fetchAcceptedSwaps_answered:
  assumes net: "\<forall>k. net k = None"
  obtains pm sm where
    "fetchAcceptedSwaps net uid d s =
       (s\<lparr>acceptedSwaps :=
            map (\<lambda>swap. \<lparr>as_id = sr_id swap, as_created_at = sr_created_at swap,
                          as_requester = party_of pm (sr_requester_id swap),
                          as_recipient = party_of pm (sr_recipient_id swap),
                          as_offered_skill = sm (sr_offered_skill_id swap),
                          as_wanted_skill = sm (sr_wanted_skill_id swap),
                          has_feedback = reviewed_by uid d swap\<rparr>)
                (accepted_for uid d),
          fp_loading := False\<rparr>, [])"
proof -
  let ?data = "accepted_for uid d"
  have hf: "sr_id swap \<in> set (map fb_swap_request_id
            (filter (\<lambda>f. feedback_select_policy uid f \<and> fb_swap_request_id f \<in> set (map sr_id ?data)
                          \<and> fb_reviewer_id f = uid) (feedback d)))
      \<longleftrightarrow> reviewed_by uid d swap" if "swap \<in> set ?data" for swap
  proof
    assume "reviewed_by uid d swap"
    then obtain f where "f \<in> set (feedback d)" "fb_swap_request_id f = sr_id swap"
      "fb_reviewer_id f = uid"
      by (auto simp add: reviewed_by_def)
    with that show "sr_id swap \<in> set (map fb_swap_request_id
            (filter (\<lambda>f. feedback_select_policy uid f \<and> fb_swap_request_id f \<in> set (map sr_id ?data)
                          \<and> fb_reviewer_id f = uid) (feedback d)))"
      by (force simp add: feedback_select_policy_def)
  qed (auto simp add: reviewed_by_def)
  let ?pm = "profilesMap (filter (\<lambda>p. profiles_select_policy uid p \<and> p_user_id p \<in> set
          (unique (map sr_requester_id ?data @ map sr_recipient_id ?data))) (profiles d))"
  let ?sm = "skillsMap (filter (\<lambda>s. sk_id s \<in> set
          (unique (map sr_offered_skill_id ?data @ map sr_wanted_skill_id ?data))) (skills d))"
  let ?ids = "map fb_swap_request_id
            (filter (\<lambda>f. feedback_select_policy uid f \<and> fb_swap_request_id f \<in> set (map sr_id ?data)
                          \<and> fb_reviewer_id f = uid) (feedback d))"
  let ?view = "\<lambda>hf swap. \<lparr>as_id = sr_id swap, as_created_at = sr_created_at swap,
                          as_requester = party_of ?pm (sr_requester_id swap),
                          as_recipient = party_of ?pm (sr_recipient_id swap),
                          as_offered_skill = ?sm (sr_offered_skill_id swap),
                          as_wanted_skill = ?sm (sr_wanted_skill_id swap),
                          has_feedback = hf swap\<rparr>"
  have run: "fetchAcceptedSwaps net uid d s =
       (s\<lparr>acceptedSwaps := map (?view (\<lambda>swap. sr_id swap \<in> set ?ids)) ?data,
          fp_loading := False\<rparr>, [])"
    by (simp add: fetchAcceptedSwaps_def select_accepted_swaps_eq net select_profiles_in_def
        select_skills_in_def select_feedback_swap_ids_def Let_def)
  have "map (?view (\<lambda>swap. sr_id swap \<in> set ?ids)) ?data = map (?view (reviewed_by uid d)) ?data"
    by (rule map_cong [OF refl]) (simp only: hf)
  with run show ?thesis
    by (intro that [of ?pm ?sm]) simp
qed

lemma filter_newest_first: "filter P (newest_first c xs) = newest_first c (filter P xs)"
  by (simp add: newest_first_def filter_sort)

lemma set_newest_first [simp]: "set (newest_first c xs) = set xs"
  by (simp add: newest_first_def)

lemma distinct_map_newest_first:
  "distinct (map f xs) \<Longrightarrow> distinct (map f (newest_first c (filter P xs)))"
  by (auto simp add: newest_first_def distinct_map intro: inj_on_subset)

lemma find_distinct_key:
  "distinct (map f xs) \<Longrightarrow> x \<in> set xs \<Longrightarrow> find (\<lambda>y. f y = f x) xs = Some x"
  by (induction xs) (auto simp add: rev_image_eqI)

lemma find_mapped: "find P (map f xs) = map_option f (find (\<lambda>x. P (f x)) xs)"
  by (induction xs) simp_all

text \<open>
  When the four queries of \<open>fetchAcceptedSwaps\<close> are answered, the swaps offered for
  review are the stored requests that are accepted, have the user as requester or
  recipient, and have no feedback row with the user as reviewer; selecting an accepted
  swap of the user puts its identifier into the form, and as reviewee the recipient if
  the user is the requester, else the requester.
\<close>

lemma fetchAcceptedSwaps_pending:
  assumes net: "\<forall>k. net k = None" and pk: "distinct (map sr_id (swap_requests d))"
  shows "as_id ` set (pendingFeedback (fst (fetchAcceptedSwaps net uid d s)))
       = sr_id ` {r \<in> set (swap_requests d). sr_status r = accepted
                     \<and> (sr_requester_id r = uid \<or> sr_recipient_id r = uid)
                     \<and> \<not> (\<exists>f \<in> set (feedback d).
                            fb_swap_request_id f = sr_id r \<and> fb_reviewer_id f = uid)}
     \<and> (\<forall>r \<in> set (swap_requests d).
           sr_status r = accepted \<and> (sr_requester_id r = uid \<or> sr_recipient_id r = uid)
           \<longrightarrow> feedbackForm (selectSwap uid (sr_id r) (fst (fetchAcceptedSwaps net uid d s)))
               = (feedbackForm s)\<lparr>swapRequestId := sr_id r,
                    revieweeId := (if sr_requester_id r = uid then sr_recipient_id r
                                   else sr_requester_id r)\<rparr>)"
proof -
  let ?s' = "fst (fetchAcceptedSwaps net uid d s)"
  let ?P = "\<lambda>r. sr_status r = accepted
                     \<and> (sr_requester_id r = uid \<or> sr_recipient_id r = uid)
                     \<and> \<not> (\<exists>f \<in> set (feedback d).
                            fb_swap_request_id f = sr_id r \<and> fb_reviewer_id f = uid)"
  from net obtain pm sm where run: "fetchAcceptedSwaps net uid d s =
       (s\<lparr>acceptedSwaps :=
            map (\<lambda>swap. \<lparr>as_id = sr_id swap, as_created_at = sr_created_at swap,
                          as_requester = party_of pm (sr_requester_id swap),
                          as_recipient = party_of pm (sr_recipient_id swap),
                          as_offered_skill = sm (sr_offered_skill_id swap),
                          as_wanted_skill = sm (sr_wanted_skill_id swap),
                          has_feedback = reviewed_by uid d swap\<rparr>)
                (accepted_for uid d),
          fp_loading := False\<rparr>, [])"
    by (rule fetchAcceptedSwaps_answered)
  let ?view = "\<lambda>swap. \<lparr>as_id = sr_id swap, as_created_at = sr_created_at swap,
                          as_requester = party_of pm (sr_requester_id swap),
                          as_recipient = party_of pm (sr_recipient_id swap),
                          as_offered_skill = sm (sr_offered_skill_id swap),
                          as_wanted_skill = sm (sr_wanted_skill_id swap),
                          has_feedback = reviewed_by uid d swap\<rparr>"
  have acc: "acceptedSwaps ?s' = map ?view (accepted_for uid d)"
    and form: "feedbackForm ?s' = feedbackForm s"
    by (simp_all add: run)
  have "pendingFeedback ?s' = map ?view (filter (\<lambda>r. \<not> reviewed_by uid d r) (accepted_for uid d))"
    by (simp add: pendingFeedback_def acc filter_map comp_def)
  also have "filter (\<lambda>r. \<not> reviewed_by uid d r) (accepted_for uid d)
      = newest_first sr_created_at (filter ?P (swap_requests d))"
    by (simp add: accepted_for_def filter_newest_first reviewed_by_def conj_commute conj_left_commute)
  finally have pend: "pendingFeedback ?s'
      = map ?view (newest_first sr_created_at (filter ?P (swap_requests d)))" .
  have 2: "as_id ` set (pendingFeedback ?s') = sr_id ` {r \<in> set (swap_requests d). ?P r}"
    by (simp add: pend image_image)
  have 3: "feedbackForm (selectSwap uid (sr_id r) ?s')
               = (feedbackForm s)\<lparr>swapRequestId := sr_id r,
                    revieweeId := (if sr_requester_id r = uid then sr_recipient_id r
                                   else sr_requester_id r)\<rparr>"
    if r: "r \<in> set (swap_requests d)" and
      acc_r: "sr_status r = accepted \<and> (sr_requester_id r = uid \<or> sr_recipient_id r = uid)" for r
  proof -
    from r acc_r have "r \<in> set (accepted_for uid d)"
      by (simp add: accepted_for_def)
    moreover from pk have "distinct (map sr_id (accepted_for uid d))"
      unfolding accepted_for_def by (rule distinct_map_newest_first)
    ultimately have "find (\<lambda>y. sr_id y = sr_id r) (accepted_for uid d) = Some r"
      by (intro find_distinct_key)
    then have "find (\<lambda>sw. as_id sw = sr_id r) (acceptedSwaps ?s') = Some (?view r)"
      by (simp add: acc find_mapped)
    then show ?thesis
      by (simp add: selectSwap_def form party_of_def)
  qed
  from 2 3 show ?thesis by blast
qed

text \<open>
  C7, at an input where the handler does not do what the claim says. Alice has reviewed
  the accepted request \<open>r1\<close>, and of the four queries of \<open>fetchAcceptedSwaps\<close> the one
  on the feedback table fails. The handler does not read the error of that query and
  takes the missing answer for no feedback: \<open>r1\<close>, for which a feedback row of Alice is
  stored, is listed as awaiting her feedback, and no toast is raised. With every query
  answered the list is empty here, and a failure of one of the three queries before
  raises the toast \<open>Error loading swaps\<close> and replaces no list.
\<close>

theorem pending_feedback_unread_error:
  "reviewed_by ''alice'' demo_reviewed (demo_request accepted)
   \<and> map as_id (pendingFeedback (fst (fetchAcceptedSwaps (net_down 3) ''alice'' demo_reviewed
        demo_feedback_page))) = [''r1'']
   \<and> snd (fetchAcceptedSwaps (net_down 3) ''alice'' demo_reviewed demo_feedback_page) = []
   \<and> map as_id (pendingFeedback (fst (fetchAcceptedSwaps no_fault ''alice'' demo_reviewed
        demo_feedback_page))) = []
   \<and> fetchAcceptedSwaps (net_down 2) ''alice'' demo_reviewed demo_feedback_page
      = (demo_feedback_page\<lparr>fp_loading := False\<rparr>,
         [Toast ''Error loading swaps'' (text_of ''Failed to fetch'') True])"
  by code_simp

lemma parseInt_stars:
  "parseInt ''1'' = Some 1" "parseInt ''2'' = Some 2" "parseInt ''3'' = Some 3"
  "parseInt ''4'' = Some 4" "parseInt ''5'' = Some 5"
  by code_simp+

lemma rating_choice:
  assumes "v \<in> set [''1'', ''2'', ''3'', ''4'', ''5'']"
  shows "v \<noteq> [] \<and> (\<exists>n. parseInt v = Some n \<and> 1 \<le> n \<and> n \<le> 5)"
  using assms parseInt_stars by auto

lemma insert_feedback_accepted:
  assumes "fb_reviewer_id new = uid" and "fb_rating new = Some n" and "1 \<le> n" and "n \<le> 5"
    and "fb_id new \<notin> set (map fb_id (feedback d))"
    and "\<forall>f \<in> set (feedback d).
           \<not> (fb_swap_request_id f = fb_swap_request_id new \<and> fb_reviewer_id f = uid)"
    and "fb_swap_request_id new \<in> set (map sr_id (swap_requests d))"
    and "uid \<in> set (auth_users d)" and "fb_reviewee_id new \<in> set (auth_users d)"
  shows "insert_feedback uid new d = Inr (d\<lparr>feedback := feedback d @ [new]\<rparr>)"
proof -
  from assms(1,6) have "(fb_swap_request_id new, fb_reviewer_id new)
      \<notin> set (map (\<lambda>f. (fb_swap_request_id f, fb_reviewer_id f)) (feedback d))"
    by auto
  with assms show ?thesis
    unfolding insert_feedback_def feedback_insert_policy_def by simp
qed

lemma insert_feedback_duplicate:
  assumes "fb_reviewer_id new = uid" and "fb_rating new = Some n" and "1 \<le> n" and "n \<le> 5"
    and "f \<in> set (feedback d)" and "fb_swap_request_id f = fb_swap_request_id new"
    and "fb_reviewer_id f = uid"
  shows "\<exists>e. insert_feedback uid new d = Inl e \<and> kind e = UniqueViolation"
proof -
  from assms(1,6,7) have eq: "(fb_swap_request_id new, fb_reviewer_id new)
      = (\<lambda>f. (fb_swap_request_id f, fb_reviewer_id f)) f"
    by simp
  from eq assms(5) have "(fb_swap_request_id new, fb_reviewer_id new)
      \<in> set (map (\<lambda>f. (fb_swap_request_id f, fb_reviewer_id f)) (feedback d))"
    unfolding set_map by (rule image_eqI)
  with assms(1-4) show ?thesis
    unfolding insert_feedback_def feedback_insert_policy_def by simp
qed

lemma submitFeedback_error:
  assumes "rating (feedbackForm s) \<noteq> []" and "revieweeId (feedbackForm s) \<noteq> []"
    and "mutate (net 0)
               (insert_feedback uid
                  \<lparr>fb_id = nid, fb_swap_request_id = swapRequestId (feedbackForm s),
                   fb_reviewer_id = uid, fb_reviewee_id = revieweeId (feedbackForm s),
                   fb_rating = parseInt (rating (feedbackForm s)),
                   fb_comment = Some (comment (feedbackForm s)),
                   fb_created_at = now\<rparr>) d = (Some e, d')"
  shows "submitFeedback net now nid uid (d, s)
     = (d', s\<lparr>submitting := False\<rparr>, [Toast ''Error submitting feedback'' (message e) True])"
  using assms unfolding submitFeedback_def by (simp add: Let_def)

lemma submitFeedback_success:
  assumes "rating (feedbackForm s) \<noteq> []" and "revieweeId (feedbackForm s) \<noteq> []"
    and "mutate (net 0)
               (insert_feedback uid
                  \<lparr>fb_id = nid, fb_swap_request_id = swapRequestId (feedbackForm s),
                   fb_reviewer_id = uid, fb_reviewee_id = revieweeId (feedbackForm s),
                   fb_rating = parseInt (rating (feedbackForm s)),
                   fb_comment = Some (comment (feedbackForm s)),
                   fb_created_at = now\<rparr>) d = (None, d')"
  shows "tables_of (submitFeedback net now nid uid (d, s)) = d'"
    and "hd (toasts_of (submitFeedback net now nid uid (d, s)))
        = Toast ''Feedback submitted!'' (text_of ''Thank you for your feedback.'') False"
  using assms unfolding submitFeedback_def by (simp_all add: Let_def)

text \<open>
  C3. Let a stored swap request be accepted, the user one of its two parties, both
  parties registered users, and no feedback row of this user for this request stored.
  With the request and the other party selected in the form and a rating from \<open>1\<close> to
  \<open>5\<close>, a submission that reaches the backend succeeds and adds exactly one feedback
  row. Any later submission of this user for the same request, filled in as the page
  allows and reaching the backend, is refused with a uniqueness error and changes no
  table: one feedback row of this user for this request remains.
\<close>

theorem feedback_once:
  assumes r: "r \<in> set (swap_requests d)" and acc: "sr_status r = accepted"
    and part: "uid = sr_requester_id r \<or> uid = sr_recipient_id r"
    and registered: "sr_requester_id r \<in> set (auth_users d)"
      "sr_recipient_id r \<in> set (auth_users d)"
    and none: "\<forall>f \<in> set (feedback d).
        \<not> (fb_swap_request_id f = sr_id r \<and> fb_reviewer_id f = uid)"
    and fresh: "nid \<notin> set (map fb_id (feedback d))"
    and swap1: "swapRequestId (feedbackForm s) = sr_id r"
    and other1: "revieweeId (feedbackForm s)
        = (if sr_requester_id r = uid then sr_recipient_id r else sr_requester_id r)"
    and named1: "revieweeId (feedbackForm s) \<noteq> []"
    and rating1: "rating (feedbackForm s) \<in> set [''1'', ''2'', ''3'', ''4'', ''5'']"
    and net1: "net 0 = None"
    and swap2: "swapRequestId (feedbackForm s2) = sr_id r"
    and named2: "revieweeId (feedbackForm s2) \<noteq> []"
    and rating2: "rating (feedbackForm s2) \<in> set [''1'', ''2'', ''3'', ''4'', ''5'']"
    and net2: "net2 0 = None"
  shows "feedback (tables_of (submitFeedback net now nid uid (d, s)))
      = feedback d @
         [\<lparr>fb_id = nid, fb_swap_request_id = sr_id r, fb_reviewer_id = uid,
           fb_reviewee_id = revieweeId (feedbackForm s),
           fb_rating = parseInt (rating (feedbackForm s)),
           fb_comment = Some (comment (feedbackForm s)), fb_created_at = now\<rparr>]
    \<and> hd (toasts_of (submitFeedback net now nid uid (d, s)))
      = Toast ''Feedback submitted!'' (text_of ''Thank you for your feedback.'') False
    \<and> tables_of (submitFeedback net2 now2 nid2 uid
          (tables_of (submitFeedback net now nid uid (d, s)), s2))
      = tables_of (submitFeedback net now nid uid (d, s))
    \<and> (\<exists>e. kind e = UniqueViolation
          \<and> toasts_of (submitFeedback net2 now2 nid2 uid
                (tables_of (submitFeedback net now nid uid (d, s)), s2))
            = [Toast ''Error submitting feedback'' (message e) True])
    \<and> length (filter (\<lambda>f. fb_swap_request_id f = sr_id r \<and> fb_reviewer_id f = uid)
          (feedback (tables_of (submitFeedback net2 now2 nid2 uid
              (tables_of (submitFeedback net now nid uid (d, s)), s2))))) = 1"
proof -
  let ?new = "\<lparr>fb_id = nid, fb_swap_request_id = swapRequestId (feedbackForm s),
                   fb_reviewer_id = uid, fb_reviewee_id = revieweeId (feedbackForm s),
                   fb_rating = parseInt (rating (feedbackForm s)),
                   fb_comment = Some (comment (feedbackForm s)),
                   fb_created_at = now\<rparr>"
  let ?new2 = "\<lparr>fb_id = nid2, fb_swap_request_id = swapRequestId (feedbackForm s2),
                   fb_reviewer_id = uid, fb_reviewee_id = revieweeId (feedbackForm s2),
                   fb_rating = parseInt (rating (feedbackForm s2)),
                   fb_comment = Some (comment (feedbackForm s2)),
                   fb_created_at = now2\<rparr>"
  let ?d1 = "d\<lparr>feedback := feedback d @ [?new]\<rparr>"
  from rating_choice [OF rating1] obtain n where
    n: "rating (feedbackForm s) \<noteq> []" "parseInt (rating (feedbackForm s)) = Some n" "1 \<le> n" "n \<le> 5"
    by blast
  from rating_choice [OF rating2] obtain m where
    m: "rating (feedbackForm s2) \<noteq> []" "parseInt (rating (feedbackForm s2)) = Some m" "1 \<le> m" "m \<le> 5"
    by blast
  from part registered have uid: "uid \<in> set (auth_users d)"
    by auto
  from other1 registered have reviewee: "revieweeId (feedbackForm s) \<in> set (auth_users d)"
    by simp
  have "insert_feedback uid ?new d = Inr ?d1"
    using n(2-4) fresh none r uid reviewee
    by (intro insert_feedback_accepted) (simp_all add: swap1)
  with net1 have first: "mutate (net 0) (insert_feedback uid ?new) d = (None, ?d1)"
    by (simp add: mutate_def)
  note one = submitFeedback_success [where net = net and s = s and uid = uid and nid = nid
      and now = now and d = d and d' = ?d1, OF n(1) named1 first]
  have "?new \<in> set (feedback ?d1)"
    by simp
  then obtain e where e: "insert_feedback uid ?new2 ?d1 = Inl e" "kind e = UniqueViolation"
    using insert_feedback_duplicate [of ?new2 uid m ?new ?d1] m(2-4)
    by (auto simp add: swap1 swap2)
  with net2 have second: "mutate (net2 0) (insert_feedback uid ?new2) ?d1 = (Some e, ?d1)"
    by (simp add: mutate_def)
  note two = submitFeedback_error [where net = net2 and s = s2 and uid = uid and nid = nid2
      and now = now2 and d = ?d1 and d' = ?d1 and e = e, OF m(1) named2 second]
  from none have "filter (\<lambda>f. fb_swap_request_id f = sr_id r \<and> fb_reviewer_id f = uid)
      (feedback d) = []"
    by (auto simp add: filter_empty_conv)
  then have count: "length (filter (\<lambda>f. fb_swap_request_id f = sr_id r \<and> fb_reviewer_id f = uid)
      (feedback ?d1)) = 1"
    by (simp add: swap1)
  show ?thesis
    unfolding one two using e(2) count
    by (auto simp add: swap1)
qed

lemma demo_review_form:
  "feedbackForm demo_review
     = \<lparr>swapRequestId = ''r1'', revieweeId = ''bob'', rating = ''5'', comment = []\<rparr>"
  by code_simp

theorem feedback_once_witness:
  "feedback (tables_of (submitFeedback no_fault 7 ''f1'' ''alice'' (demo_db accepted, demo_review)))
     = [\<lparr>fb_id = ''f1'', fb_swap_request_id = ''r1'', fb_reviewer_id = ''alice'',
         fb_reviewee_id = ''bob'', fb_rating = Some 5, fb_comment = Some [],
         fb_created_at = 7\<rparr>]
   \<and> tables_of (submitFeedback no_fault 8 ''f2'' ''alice''
        (tables_of (submitFeedback no_fault 7 ''f1'' ''alice'' (demo_db accepted, demo_review)),
         demo_review))
     = tables_of (submitFeedback no_fault 7 ''f1'' ''alice'' (demo_db accepted, demo_review))
   \<and> length (filter (\<lambda>f. fb_swap_request_id f = ''r1'' \<and> fb_reviewer_id f = ''alice'')
        (feedback (tables_of (submitFeedback no_fault 8 ''f2'' ''alice''
          (tables_of (submitFeedback no_fault 7 ''f1'' ''alice'' (demo_db accepted, demo_review)),
           demo_review))))) = 1"
proof -
  have "feedback (tables_of (submitFeedback no_fault 7 ''f1'' ''alice'' (demo_db accepted, demo_review)))
     = feedback (demo_db accepted) @
       [\<lparr>fb_id = ''f1'', fb_swap_request_id = sr_id (demo_request accepted),
         fb_reviewer_id = ''alice'', fb_reviewee_id = revieweeId (feedbackForm demo_review),
         fb_rating = parseInt (rating (feedbackForm demo_review)),
         fb_comment = Some (comment (feedbackForm demo_review)), fb_created_at = 7\<rparr>]
   \<and> hd (toasts_of (submitFeedback no_fault 7 ''f1'' ''alice'' (demo_db accepted, demo_review)))
      = Toast ''Feedback submitted!'' (text_of ''Thank you for your feedback.'') False
   \<and> tables_of (submitFeedback no_fault 8 ''f2'' ''alice''
        (tables_of (submitFeedback no_fault 7 ''f1'' ''alice'' (demo_db accepted, demo_review)),
         demo_review))
     = tables_of (submitFeedback no_fault 7 ''f1'' ''alice'' (demo_db accepted, demo_review))
   \<and> (\<exists>e. kind e = UniqueViolation
          \<and> toasts_of (submitFeedback no_fault 8 ''f2'' ''alice''
                (tables_of (submitFeedback no_fault 7 ''f1'' ''alice''
                   (demo_db accepted, demo_review)), demo_review))
            = [Toast ''Error submitting feedback'' (message e) True])
   \<and> length (filter (\<lambda>f. fb_swap_request_id f = sr_id (demo_request accepted)
            \<and> fb_reviewer_id f = ''alice'')
        (feedback (tables_of (submitFeedback no_fault 8 ''f2'' ''alice''
          (tables_of (submitFeedback no_fault 7 ''f1'' ''alice'' (demo_db accepted, demo_review)),
           demo_review))))) = 1"
    by (rule feedback_once)
      (simp_all add: demo_db_def demo_request_def demo_review_form no_fault_def)
  then show ?thesis
    by (simp add: demo_db_def demo_request_def demo_review_form parseInt_stars)
qed

section \<open>Properties of the skills page and of failed calls\<close>

lemma mutate_returning_error: "mutate_returning flt stmt d = (Inl e, d') \<Longrightarrow> d' = d"
  by (auto simp add: mutate_returning_def split: option.splits sum.splits prod.splits)

lemma mutate_error: "mutate flt stmt d = (Some e, d') \<Longrightarrow> d' = d"
  by (auto simp add: mutate_def split: option.splits sum.splits)

lemma mutate_insert_skill:
  "mutate_returning flt (insert_skill now nid name) d =
     (case flt of
        Some e \<Rightarrow> (Inl e, d)
      | None \<Rightarrow>
          if nid \<in> set (map sk_id (skills d)) then
            (Inl (Error UniqueViolation
               (text_of ''duplicate key value violates unique constraint skills_pkey'')), d)
          else if name \<in> set (map sk_name (skills d)) then
            (Inl (Error UniqueViolation
               (text_of ''duplicate key value violates unique constraint skills_name_key'')), d)
          else (Inr \<lparr>sk_id = nid, sk_name = name, sk_category = None,
                     sk_is_approved = Some True, sk_created_at = now\<rparr>,
                d\<lparr>skills := skills d @
                  [\<lparr>sk_id = nid, sk_name = name, sk_category = None,
                     sk_is_approved = Some True, sk_created_at = now\<rparr>]\<rparr>))"
  by (simp add: mutate_returning_def insert_skill_def Let_def split: option.splits)

lemma addUserSkill_error:
  assumes "fst (mutate_returning flt
             (insert_user_skill uid
                \<lparr>us_id = nid, us_user_id = uid, us_skill_id = sk_id skill,
                 us_skill_type = t, us_created_at = now\<rparr>) d) = Inl e"
  shows "addUserSkill flt now nid uid t skill (d, s)
     = (d, s\<lparr>adding := False\<rparr>, [Toast ''Error adding skill'' (message e) True])"
proof -
  obtain d' where m: "mutate_returning flt
             (insert_user_skill uid
                \<lparr>us_id = nid, us_user_id = uid, us_skill_id = sk_id skill,
                 us_skill_type = t, us_created_at = now\<rparr>) d = (Inl e, d')"
    using assms by (metis prod.collapse)
  then have "d' = d" by (rule mutate_returning_error)
  with m show ?thesis
    by (simp add: addUserSkill_def add_failed_def)
qed

lemma addUserSkill_tables:
  "skills (tables_of (addUserSkill flt now nid uid t skill (d, s))) = skills d"
  "user_skills (tables_of (addUserSkill flt now nid uid t skill (d, s))) = user_skills d
   \<or> user_skills (tables_of (addUserSkill flt now nid uid t skill (d, s)))
      = user_skills d @ [\<lparr>us_id = nid, us_user_id = uid, us_skill_id = sk_id skill,
                 us_skill_type = t, us_created_at = now\<rparr>]"
  by (auto simp add: addUserSkill_def add_failed_def mutate_returning_def insert_user_skill_def
      split: option.splits sum.splits prod.splits if_splits)

lemma addSkill_blank:
  "trim (newSkillName s) = [] \<Longrightarrow> addSkill lower net now nid1 nid2 uid t (d, s) = (d, s, [])"
  by (simp add: addSkill_def)

lemma addSkill_hit:
  "trim (newSkillName s) \<noteq> [] \<Longrightarrow> lookupSkill lower s = Some skill \<Longrightarrow>
     addSkill lower net now nid1 nid2 uid t (d, s) = addUserSkill (net 1) now nid2 uid t skill (d, s)"
  by (simp add: addSkill_def)

lemma addSkill_miss:
  "trim (newSkillName s) \<noteq> [] \<Longrightarrow> lookupSkill lower s = None \<Longrightarrow>
     addSkill lower net now nid1 nid2 uid t (d, s) =
       (case mutate_returning (net 0) (insert_skill now nid1 (trim (newSkillName s))) d of
          (Inl e, d') \<Rightarrow> add_failed d' s e
        | (Inr newSkill, d') \<Rightarrow>
            addUserSkill (net 1) now nid2 uid t newSkill
              (d', s\<lparr>allSkills := allSkills s @ [newSkill]\<rparr>))"
  by (simp add: addSkill_def)

text \<open>
  C8, as stated, fails in both directions. Carol enters \<open>guitar\<close>: no skill of that
  name is stored, yet no skill row is inserted and the stored skill \<open>Guitar\<close> is used.
  With an empty cached skill list she enters \<open>Guitar\<close>, which is stored: the stored row
  is not reused, and no user skill is added.
\<close>

theorem skill_lookup_counterexample:
  "text_of ''guitar'' \<notin> set (map sk_name (skills (demo_db pending)))
   \<and> skills (tables_of (addSkill ascii_lower no_fault 5 ''s3'' ''k9'' ''carol'' wanted
        (demo_db pending, demo_skills_page ''guitar'' (skills (demo_db pending)))))
       = skills (demo_db pending)
   \<and> map us_skill_id (user_skills (tables_of (addSkill ascii_lower no_fault 5 ''s3'' ''k9''
        ''carol'' wanted
        (demo_db pending, demo_skills_page ''guitar'' (skills (demo_db pending))))))
       = [''s1'', ''s1'', ''s2'', ''s1'', ''s1'', ''s1'']
   \<and> text_of ''Guitar'' \<in> set (map sk_name (skills (demo_db pending)))
   \<and> addSkill ascii_lower no_fault 5 ''s3'' ''k9'' ''carol'' wanted
        (demo_db pending, demo_skills_page ''Guitar'' [])
       = (demo_db pending, demo_skills_page ''Guitar'' [],
          [Toast ''Error adding skill''
             (text_of ''duplicate key value violates unique constraint skills_name_key'') True])"
  by code_simp

text \<open>
  C8, amended. Let the entry be non-empty and without white space at its ends.
  \<open>addSkill\<close> inserts a row into the skills table if and only if the page's cached skill
  list has no skill whose name equals the entry once \<open>toLowerCase\<close> is applied to both,
  the entry is not the name of a stored skill, and the insert reaches the backend (the
  new identifier being fresh); the new row carries the entry as its name. In every other
  case the skills table is unchanged. When the cached list has such a skill, the first
  one is reused: a user skill that is added refers to it. Stored names stay distinct.
  This holds whatever function \<open>toLowerCase\<close> is.
\<close>

theorem skill_created_lazily:
  assumes entry: "newSkillName s \<noteq> []" "trim (newSkillName s) = newSkillName s"
  shows "skills (tables_of (addSkill lower net now nid1 nid2 uid t (d, s)))
      = (if lookupSkill lower s = None \<and> net 0 = None \<and> nid1 \<notin> set (map sk_id (skills d))
            \<and> newSkillName s \<notin> set (map sk_name (skills d))
         then skills d @
           [\<lparr>sk_id = nid1, sk_name = newSkillName s, sk_category = None,
             sk_is_approved = Some True, sk_created_at = now\<rparr>]
         else skills d)
    \<and> (\<forall>skill. lookupSkill lower s = Some skill \<longrightarrow>
          user_skills (tables_of (addSkill lower net now nid1 nid2 uid t (d, s))) = user_skills d
          \<or> user_skills (tables_of (addSkill lower net now nid1 nid2 uid t (d, s)))
             = user_skills d @ [\<lparr>us_id = nid2, us_user_id = uid, us_skill_id = sk_id skill,
                 us_skill_type = t, us_created_at = now\<rparr>])
    \<and> (distinct (map sk_name (skills d))
        \<longrightarrow> distinct (map sk_name (skills (tables_of (addSkill lower net now nid1 nid2 uid t (d, s))))))"
proof -
  let ?R = "addSkill lower net now nid1 nid2 uid t (d, s)"
  let ?new = "\<lparr>sk_id = nid1, sk_name = newSkillName s, sk_category = None,
             sk_is_approved = Some True, sk_created_at = now\<rparr>"
  let ?go = "lookupSkill lower s = None \<and> net 0 = None \<and> nid1 \<notin> set (map sk_id (skills d))
            \<and> newSkillName s \<notin> set (map sk_name (skills d))"
  from entry have nonblank: "trim (newSkillName s) \<noteq> []"
    by simp
  have 1: "skills (tables_of ?R) = (if ?go then skills d @ [?new] else skills d)"
  proof (cases "lookupSkill lower s")
    case (Some skill)
    then show ?thesis
      by (simp add: addSkill_hit [OF nonblank Some] addUserSkill_tables)
  next
    case None
    show ?thesis
      unfolding addSkill_miss [OF nonblank None] mutate_insert_skill entry(2)
      by (cases "net 0") (simp_all add: None add_failed_def addUserSkill_tables)
  qed
  have 2: "user_skills (tables_of ?R) = user_skills d
          \<or> user_skills (tables_of ?R)
             = user_skills d @ [\<lparr>us_id = nid2, us_user_id = uid, us_skill_id = sk_id skill,
                 us_skill_type = t, us_created_at = now\<rparr>]"
    if "lookupSkill lower s = Some skill" for skill
    unfolding addSkill_hit [OF nonblank that] by (rule addUserSkill_tables)
  have 3: "distinct (map sk_name (skills (tables_of ?R)))" if "distinct (map sk_name (skills d))"
    using that unfolding 1 by simp
  from 1 2 3 show ?thesis by blast
qed

theorem skill_created_lazily_witness:
  "newSkillName (demo_skills_page ''Piano'' (skills (demo_db pending))) \<noteq> []
   \<and> trim (text_of ''Piano'') = text_of ''Piano''
   \<and> skills (tables_of (addSkill ascii_lower no_fault 5 ''s3'' ''k9'' ''carol'' wanted
        (demo_db pending, demo_skills_page ''Piano'' (skills (demo_db pending)))))
     = skills (demo_db pending) @
         [\<lparr>sk_id = ''s3'', sk_name = text_of ''Piano'', sk_category = None,
           sk_is_approved = Some True, sk_created_at = 5\<rparr>]
   \<and> lookupSkill ascii_lower (demo_skills_page ''SPANISH'' (skills (demo_db pending)))
     = Some (demo_skill ''s2'' ''Spanish'')
   \<and> skills (tables_of (addSkill ascii_lower no_fault 5 ''s3'' ''k9'' ''carol'' wanted
        (demo_db pending, demo_skills_page ''SPANISH'' (skills (demo_db pending)))))
     = skills (demo_db pending)"
proof -
  let ?p = "demo_skills_page ''Piano'' (skills (demo_db pending))"
  let ?q = "demo_skills_page ''SPANISH'' (skills (demo_db pending))"
  have name: "newSkillName ?p = text_of ''Piano''" "newSkillName ?q = text_of ''SPANISH''"
    by (simp_all add: demo_skills_page_def)
  have p: "newSkillName ?p \<noteq> []" "trim (newSkillName ?p) = newSkillName ?p"
    "lookupSkill ascii_lower ?p = None"
    "''s3'' \<notin> set (map sk_id (skills (demo_db pending)))"
    "newSkillName ?p \<notin> set (map sk_name (skills (demo_db pending)))"
    by code_simp+
  have q: "newSkillName ?q \<noteq> []" "trim (newSkillName ?q) = newSkillName ?q"
    "lookupSkill ascii_lower ?q = Some (demo_skill ''s2'' ''Spanish'')"
    by code_simp+
  have no_fault: "no_fault 0 = None"
    by (simp add: no_fault_def)
  have "skills (tables_of (addSkill ascii_lower no_fault 5 ''s3'' ''k9'' ''carol'' wanted
        (demo_db pending, ?p)))
     = skills (demo_db pending) @
         [\<lparr>sk_id = ''s3'', sk_name = newSkillName ?p, sk_category = None,
           sk_is_approved = Some True, sk_created_at = 5\<rparr>]"
    using skill_created_lazily [where s = ?p and lower = ascii_lower and net = no_fault
        and now = 5 and ?nid1.0 = "''s3''" and ?nid2.0 = "''k9''" and uid = "''carol''"
        and t = wanted and d = "demo_db pending", OF p(1,2)] p(3,4,5) no_fault
    by (simp only: if_True simp_thms)
  then have 1: "skills (tables_of (addSkill ascii_lower no_fault 5 ''s3'' ''k9'' ''carol'' wanted
        (demo_db pending, ?p)))
     = skills (demo_db pending) @
         [\<lparr>sk_id = ''s3'', sk_name = text_of ''Piano'', sk_category = None,
           sk_is_approved = Some True, sk_created_at = 5\<rparr>]"
    unfolding name .
  have 2: "skills (tables_of (addSkill ascii_lower no_fault 5 ''s3'' ''k9'' ''carol'' wanted
        (demo_db pending, ?q)))
     = skills (demo_db pending)"
    using skill_created_lazily [where s = ?q and lower = ascii_lower and net = no_fault
        and now = 5 and ?nid1.0 = "''s3''" and ?nid2.0 = "''k9''" and uid = "''carol''"
        and t = wanted and d = "demo_db pending", OF q(1,2)] q(3)
    by simp
  from p(1) p(2) [unfolded name] 1 q(3) 2 show ?thesis
    by (intro conjI)
qed

lemma toasts_updateRequestStatus_error:
  assumes "fst (mutate flt (update_swap_request_status now uid rid st) d) = Some e"
  shows "updateRequestStatus flt now uid rid st (d, p)
     = (d, p, [Toast ''Error updating request'' (message e) True])"
proof -
  obtain d' where m: "mutate flt (update_swap_request_status now uid rid st) d = (Some e, d')"
    using assms by (metis prod.collapse)
  then have "d' = d" by (rule mutate_error)
  with m show ?thesis by (simp add: updateRequestStatus_def)
qed

lemma toasts_deleteRequest_error:
  assumes "fst (mutate flt (delete_swap_request uid rid) d) = Some e"
  shows "deleteRequest flt uid rid (d, p)
     = (d, p, [Toast ''Error deleting request'' (message e) True])"
proof -
  obtain d' where m: "mutate flt (delete_swap_request uid rid) d = (Some e, d')"
    using assms by (metis prod.collapse)
  then have "d' = d" by (rule mutate_error)
  with m show ?thesis by (simp add: deleteRequest_def)
qed

lemma submitFeedback_refused:
  assumes "rating (feedbackForm f) \<noteq> []" and "revieweeId (feedbackForm f) \<noteq> []"
    and "fst (mutate (net 0)
               (insert_feedback uid
                  \<lparr>fb_id = nid, fb_swap_request_id = swapRequestId (feedbackForm f),
                   fb_reviewer_id = uid, fb_reviewee_id = revieweeId (feedbackForm f),
                   fb_rating = parseInt (rating (feedbackForm f)),
                   fb_comment = Some (comment (feedbackForm f)),
                   fb_created_at = now\<rparr>) d) = Some e"
  shows "submitFeedback net now nid uid (d, f)
     = (d, f\<lparr>submitting := False\<rparr>, [Toast ''Error submitting feedback'' (message e) True])"
proof -
  obtain d' where m: "mutate (net 0)
               (insert_feedback uid
                  \<lparr>fb_id = nid, fb_swap_request_id = swapRequestId (feedbackForm f),
                   fb_reviewer_id = uid, fb_reviewee_id = revieweeId (feedbackForm f),
                   fb_rating = parseInt (rating (feedbackForm f)),
                   fb_comment = Some (comment (feedbackForm f)),
                   fb_created_at = now\<rparr>) d = (Some e, d')"
    using assms(3) by (metis prod.collapse)
  then have "d' = d" by (rule mutate_error)
  with m assms(1,2) show ?thesis
    unfolding submitFeedback_def by (simp add: Let_def)
qed

lemma addSkill_created_then_refused:
  assumes "trim (newSkillName k) \<noteq> []" and "lookupSkill lower k = None"
    and "mutate_returning (net 0) (insert_skill now nid1 (trim (newSkillName k))) d
           = (Inr newSkill, d1)"
    and "fst (mutate_returning (net 1)
             (insert_user_skill uid
                \<lparr>us_id = nid2, us_user_id = uid, us_skill_id = sk_id newSkill,
                 us_skill_type = t, us_created_at = now\<rparr>) d1) = Inl e"
  shows "addSkill lower net now nid1 nid2 uid t (d, k)
     = (d1, k\<lparr>allSkills := allSkills k @ [newSkill], adding := False\<rparr>,
        [Toast ''Error adding skill'' (message e) True])"
  unfolding addSkill_miss [OF assms(1,2)] assms(3)
  by (simp add: addUserSkill_error [OF assms(4)] del: One_nat_def)

lemma addSkill_first_refused:
  assumes "trim (newSkillName k) \<noteq> []" and "lookupSkill lower k = None"
    and "fst (mutate_returning (net 0) (insert_skill now nid1 (trim (newSkillName k))) d) = Inl e"
  shows "addSkill lower net now nid1 nid2 uid t (d, k)
     = (d, k\<lparr>adding := False\<rparr>, [Toast ''Error adding skill'' (message e) True])"
proof -
  obtain d' where m: "mutate_returning (net 0) (insert_skill now nid1 (trim (newSkillName k))) d
      = (Inl e, d')"
    using assms(3) by (metis prod.collapse)
  then have "d' = d" by (rule mutate_returning_error)
  with m show ?thesis
    unfolding addSkill_miss [OF assms(1,2)] by (simp add: add_failed_def)
qed

text \<open>
  C9, as stated, fails for the skill add. Carol adds \<open>Piano\<close>, a new skill; the skill
  row is created and the insert of her user skill then fails on the network. The error
  toast carries the message, but the cached skill list has grown by the new skill, as
  has the skills table: the add is applied in part.
\<close>

theorem failed_add_counterexample:
  "toasts_of (addSkill ascii_lower (net_down 1) 5 ''s3'' ''k9'' ''carol'' wanted
        (demo_db pending, demo_skills_page ''Piano'' (skills (demo_db pending))))
     = [Toast ''Error adding skill'' (text_of ''Failed to fetch'') True]
   \<and> map sk_name (allSkills (demo_skills_page ''Piano'' (skills (demo_db pending))))
     = [text_of ''Guitar'', text_of ''Spanish'']
   \<and> map sk_name (allSkills (page_of (addSkill ascii_lower (net_down 1) 5 ''s3'' ''k9'' ''carol'' wanted
        (demo_db pending, demo_skills_page ''Piano'' (skills (demo_db pending))))))
     = [text_of ''Guitar'', text_of ''Spanish'', text_of ''Piano'']
   \<and> map sk_name (skills (tables_of (addSkill ascii_lower (net_down 1) 5 ''s3'' ''k9'' ''carol'' wanted
        (demo_db pending, demo_skills_page ''Piano'' (skills (demo_db pending))))))
     = [text_of ''Guitar'', text_of ''Spanish'', text_of ''Piano'']"
  by code_simp

text \<open>
  C9, amended. When the backend call of a status update, of a deletion or of a feedback
  submission fails, tables and page state are as before, the submitting flag cleared, and
  an error toast carries the backend's message. The same holds for a skill add, the
  adding flag cleared, when the call that fails is the first one the handler makes: the
  insert of the skill, or the insert of the user skill for a skill found in the cached
  list. When the handler has created a skill and the insert of the user skill then
  fails, the created skill stays in the skills table and in the cached list; nothing
  else changes and the error toast is raised.
\<close>

theorem failed_mutation_state:
  "(fst (mutate flt (update_swap_request_status now uid rid st) d) = Some e
      \<longrightarrow> updateRequestStatus flt now uid rid st (d, p)
            = (d, p, [Toast ''Error updating request'' (message e) True]))
   \<and> (fst (mutate flt (delete_swap_request uid rid) d) = Some e
      \<longrightarrow> deleteRequest flt uid rid (d, p)
            = (d, p, [Toast ''Error deleting request'' (message e) True]))
   \<and> (rating (feedbackForm f) \<noteq> [] \<and> revieweeId (feedbackForm f) \<noteq> []
        \<and> fst (mutate (net 0)
               (insert_feedback uid
                  \<lparr>fb_id = nid, fb_swap_request_id = swapRequestId (feedbackForm f),
                   fb_reviewer_id = uid, fb_reviewee_id = revieweeId (feedbackForm f),
                   fb_rating = parseInt (rating (feedbackForm f)),
                   fb_comment = Some (comment (feedbackForm f)),
                   fb_created_at = now\<rparr>) d) = Some e
      \<longrightarrow> submitFeedback net now nid uid (d, f)
            = (d, f\<lparr>submitting := False\<rparr>,
               [Toast ''Error submitting feedback'' (message e) True]))
   \<and> (trim (newSkillName k) \<noteq> [] \<and> lookupSkill lower k = Some skill
        \<and> fst (mutate_returning (net 1)
             (insert_user_skill uid
                \<lparr>us_id = nid2, us_user_id = uid, us_skill_id = sk_id skill,
                 us_skill_type = t, us_created_at = now\<rparr>) d) = Inl e
      \<longrightarrow> addSkill lower net now nid1 nid2 uid t (d, k)
            = (d, k\<lparr>adding := False\<rparr>, [Toast ''Error adding skill'' (message e) True]))
   \<and> (trim (newSkillName k) \<noteq> [] \<and> lookupSkill lower k = None
        \<and> fst (mutate_returning (net 0) (insert_skill now nid1 (trim (newSkillName k))) d) = Inl e
      \<longrightarrow> addSkill lower net now nid1 nid2 uid t (d, k)
            = (d, k\<lparr>adding := False\<rparr>, [Toast ''Error adding skill'' (message e) True]))
   \<and> (trim (newSkillName k) \<noteq> [] \<and> lookupSkill lower k = None
        \<and> mutate_returning (net 0) (insert_skill now nid1 (trim (newSkillName k))) d
             = (Inr newSkill, d1)
        \<and> fst (mutate_returning (net 1)
             (insert_user_skill uid
                \<lparr>us_id = nid2, us_user_id = uid, us_skill_id = sk_id newSkill,
                 us_skill_type = t, us_created_at = now\<rparr>) d1) = Inl e
      \<longrightarrow> addSkill lower net now nid1 nid2 uid t (d, k)
            = (d1, k\<lparr>allSkills := allSkills k @ [newSkill], adding := False\<rparr>,
               [Toast ''Error adding skill'' (message e) True]))"
  using toasts_updateRequestStatus_error [of flt now uid rid st d e p]
    toasts_deleteRequest_error [of flt uid rid d e p]
    submitFeedback_refused [of f net uid nid now d e]
    addUserSkill_error [of "net 1" uid nid2 skill t now d e k]
    addSkill_hit [of k lower skill net now nid1 nid2 uid t d]
    addSkill_first_refused [of k lower net now nid1 d e nid2 uid t]
    addSkill_created_then_refused [of k lower net now nid1 d newSkill d1 uid nid2 t e]
  by simp

theorem failed_mutation_state_witness:
  "updateRequestStatus (net_down 0 0) 9 ''alice'' ''r1'' accepted
       (demo_db pending, demo_received pending)
     = (demo_db pending, demo_received pending,
        [Toast ''Error updating request'' (text_of ''Failed to fetch'') True])
   \<and> addSkill ascii_lower no_fault 5 ''s3'' ''k9'' ''carol'' offered
       (demo_db pending, demo_skills_page ''guitar'' (skills (demo_db pending)))
     = (demo_db pending,
        (demo_skills_page ''guitar'' (skills (demo_db pending)))\<lparr>adding := False\<rparr>,
        [Toast ''Error adding skill''
           (text_of ''duplicate key value violates unique constraint user_skills_user_id_skill_id_skill_type_key'')
           True])
   \<and> addSkill ascii_lower (net_down 1) 5 ''s3'' ''k9'' ''carol'' wanted
       (demo_db pending, demo_skills_page ''Piano'' (skills (demo_db pending)))
     = ((demo_db pending)\<lparr>skills := skills (demo_db pending) @
            [(demo_skill ''s3'' ''Piano'')\<lparr>sk_created_at := 5\<rparr>]\<rparr>,
        (demo_skills_page ''Piano'' (skills (demo_db pending)))
          \<lparr>allSkills := skills (demo_db pending) @
              [(demo_skill ''s3'' ''Piano'')\<lparr>sk_created_at := 5\<rparr>],
           adding := False\<rparr>,
        [Toast ''Error adding skill'' (text_of ''Failed to fetch'') True])"
proof -
  let ?down = "Error TransportError (text_of ''Failed to fetch'')"
  let ?dup = "Error UniqueViolation
    (text_of ''duplicate key value violates unique constraint user_skills_user_id_skill_id_skill_type_key'')"
  let ?g = "demo_skills_page ''guitar'' (skills (demo_db pending))"
  let ?p = "demo_skills_page ''Piano'' (skills (demo_db pending))"
  let ?piano = "(demo_skill ''s3'' ''Piano'')\<lparr>sk_created_at := 5\<rparr>"
  let ?d1 = "(demo_db pending)\<lparr>skills := skills (demo_db pending) @ [?piano]\<rparr>"
  have 1: "fst (mutate (net_down 0 0) (update_swap_request_status 9 ''alice'' ''r1'' accepted)
      (demo_db pending)) = Some ?down"
    by (simp add: mutate_def net_down_def)
  have g: "trim (newSkillName ?g) \<noteq> []" "lookupSkill ascii_lower ?g = Some (demo_skill ''s1'' ''Guitar'')"
    "fst (mutate_returning (no_fault 1)
             (insert_user_skill ''carol''
                \<lparr>us_id = ''k9'', us_user_id = ''carol'',
                 us_skill_id = sk_id (demo_skill ''s1'' ''Guitar''),
                 us_skill_type = offered, us_created_at = 5\<rparr>) (demo_db pending)) = Inl ?dup"
    by code_simp+
  have p: "trim (newSkillName ?p) \<noteq> []" "lookupSkill ascii_lower ?p = None"
    "mutate_returning (net_down 1 0) (insert_skill 5 ''s3'' (trim (newSkillName ?p)))
       (demo_db pending) = (Inr ?piano, ?d1)"
    "fst (mutate_returning (net_down 1 1)
             (insert_user_skill ''carol''
                \<lparr>us_id = ''k9'', us_user_id = ''carol'', us_skill_id = sk_id ?piano,
                 us_skill_type = wanted, us_created_at = 5\<rparr>) ?d1) = Inl ?down"
    by code_simp+
  have "updateRequestStatus (net_down 0 0) 9 ''alice'' ''r1'' accepted
       (demo_db pending, demo_received pending)
     = (demo_db pending, demo_received pending,
        [Toast ''Error updating request'' (message ?down) True])"
    using failed_mutation_state [where flt = "net_down 0 0" and now = 9 and uid = "''alice''"
        and rid = "''r1''" and st = accepted and d = "demo_db pending" and e = ?down
        and p = "demo_received pending"] 1
    by blast
  moreover have "addSkill ascii_lower no_fault 5 ''s3'' ''k9'' ''carol'' offered (demo_db pending, ?g)
     = (demo_db pending, ?g\<lparr>adding := False\<rparr>, [Toast ''Error adding skill'' (message ?dup) True])"
    using failed_mutation_state [where lower = ascii_lower and net = no_fault and now = 5 and uid = "''carol''"
        and d = "demo_db pending" and e = ?dup and k = ?g and t = offered
        and skill = "demo_skill ''s1'' ''Guitar''" and ?nid1.0 = "''s3''" and ?nid2.0 = "''k9''"] g
    by blast
  moreover have "addSkill ascii_lower (net_down 1) 5 ''s3'' ''k9'' ''carol'' wanted (demo_db pending, ?p)
     = (?d1, ?p\<lparr>allSkills := allSkills ?p @ [?piano], adding := False\<rparr>,
        [Toast ''Error adding skill'' (message ?down) True])"
    using failed_mutation_state [where lower = ascii_lower and net = "net_down 1" and now = 5 and uid = "''carol''"
        and d = "demo_db pending" and e = ?down and k = ?p and t = wanted
        and newSkill = ?piano and ?d1.0 = ?d1 and ?nid1.0 = "''s3''" and ?nid2.0 = "''k9''"] p
    by blast
  ultimately show ?thesis
    by (simp add: demo_skills_page_def)
qed

end
